theory Spec2Isabelle
  imports Main "HOL-Library.Sublist" "HOL-Library.Word"
begin

section \<open>JavaScript values\<close>

text \<open>
  The values a config module can export, a promise can reject with, and
  \<^verbatim>\<open>JSON.stringify\<close> can be given. Numbers are modelled by integers (IEEE doubles are
  outside the embedding), strings by sequences of 8-bit characters. \<open>JError m\<close> is an
  instance of \<^verbatim>\<open>Error\<close> with message \<open>m\<close>; \<open>JFunction\<close> is any callable; the list of
  \<open>JObject\<close> holds the object's own enumerable properties in the order they are
  enumerated. Symbols, getters, \<^verbatim>\<open>toJSON\<close> methods and cyclic objects are not modelled.
\<close>

datatype js_value =
    JUndefined
  | JNull
  | JBoolean bool
  | JNumber int
  | JBigInt int
  | JString string
  | JFunction
  | JError string
  | JArray "js_value list"
  | JObject "(string \<times> js_value) list"

text \<open>The \<^verbatim>\<open>typeof\<close> operator.\<close>

fun typeof :: "js_value \<Rightarrow> string" where
  "typeof JUndefined = ''undefined''"
| "typeof JNull = ''object''"
| "typeof (JBoolean b) = ''boolean''"
| "typeof (JNumber n) = ''number''"
| "typeof (JBigInt n) = ''bigint''"
| "typeof (JString s) = ''string''"
| "typeof JFunction = ''function''"
| "typeof (JError m) = ''object''"
| "typeof (JArray xs) = ''object''"
| "typeof (JObject ps) = ''object''"

section \<open>JSON text\<close>

text \<open>
  Modelled from the spec: \<^verbatim>\<open>JSONStringify\<close> of \<^verbatim>\<open>utils/globals.ts\<close>, which is not among the
  sources. The spec says the result of config loading is serialized as JSON text, so the
  model is ECMAScript's \<^verbatim>\<open>JSON.stringify\<close> with one argument, on the values above:
  a BigInt anywhere in the value throws a \<^verbatim>\<open>TypeError\<close>; \<^verbatim>\<open>undefined\<close> and functions are
  left out of an object and written \<^verbatim>\<open>null\<close> in an array; an \<^verbatim>\<open>Error\<close> has no
  enumerable property of its own and is written \<^verbatim>\<open>{}\<close>.
\<close>

definition hex_digit :: "nat \<Rightarrow> char" where
  "hex_digit n = ''0123456789abcdef'' ! (n mod 16)"

definition quote_char :: "char \<Rightarrow> string" where
  "quote_char c =
     (if c = CHR 0x22 then [CHR 0x5C, CHR 0x22]
      else if c = CHR 0x5C then [CHR 0x5C, CHR 0x5C]
      else if c = CHR 0x08 then [CHR 0x5C, CHR ''b'']
      else if c = CHR 0x09 then [CHR 0x5C, CHR ''t'']
      else if c = CHR 0x0A then [CHR 0x5C, CHR ''n'']
      else if c = CHR 0x0C then [CHR 0x5C, CHR ''f'']
      else if c = CHR 0x0D then [CHR 0x5C, CHR ''r'']
      else if (of_char c :: nat) < 32
        then [CHR 0x5C, CHR ''u'', CHR ''0'', CHR ''0'',
              hex_digit (of_char c div 16), hex_digit (of_char c)]
      else [c])"

definition QuoteJSONString :: "string \<Rightarrow> string" where
  "QuoteJSONString s = [CHR 0x22] @ concat (map quote_char s) @ [CHR 0x22]"

fun decimal :: "nat \<Rightarrow> string" where
  "decimal n =
     (if n < 10 then [''0123456789'' ! n]
      else decimal (n div 10) @ [''0123456789'' ! (n mod 10)])"

definition number_text :: "int \<Rightarrow> string" where
  "number_text i = (if i < 0 then CHR ''-'' # decimal (nat (- i)) else decimal (nat i))"

fun join_comma :: "string list \<Rightarrow> string" where
  "join_comma [] = []"
| "join_comma [x] = x"
| "join_comma (x # y # ys) = x @ '','' @ join_comma (y # ys)"

text \<open>
  Running the serialization of the elements of a list in order: the first throw wins.
\<close>

fun sequence :: "('e + 'a) list \<Rightarrow> 'e + 'a list" where
  "sequence [] = Inr []"
| "sequence (Inl e # rs) = Inl e"
| "sequence (Inr x # rs) = (case sequence rs of Inl e \<Rightarrow> Inl e | Inr xs \<Rightarrow> Inr (x # xs))"

text \<open>
  \<open>SerializeJSONProperty v\<close> is \<open>Inl e\<close> when serializing \<open>v\<close> throws \<open>e\<close>,
  \<open>Inr None\<close> when the result is \<^verbatim>\<open>undefined\<close>, and \<open>Inr (Some text)\<close> otherwise.
\<close>

fun SerializeJSONProperty :: "js_value \<Rightarrow> js_value + string option" where
  "SerializeJSONProperty JUndefined = Inr None"
| "SerializeJSONProperty JFunction = Inr None"
| "SerializeJSONProperty JNull = Inr (Some ''null'')"
| "SerializeJSONProperty (JBoolean b) = Inr (Some (if b then ''true'' else ''false''))"
| "SerializeJSONProperty (JNumber n) = Inr (Some (number_text n))"
| "SerializeJSONProperty (JBigInt n) = Inl (JError ''Do not know how to serialize a BigInt'')"
| "SerializeJSONProperty (JString s) = Inr (Some (QuoteJSONString s))"
| "SerializeJSONProperty (JError m) = Inr (Some ''{}'')"
| "SerializeJSONProperty (JArray xs) =
     (case sequence (map SerializeJSONProperty xs) of
        Inl e \<Rightarrow> Inl e
      | Inr parts \<Rightarrow>
          Inr (Some (''['' @ join_comma (map (\<lambda>p. case p of None \<Rightarrow> ''null'' | Some t \<Rightarrow> t) parts)
                     @ '']'')))"
| "SerializeJSONProperty (JObject ps) =
     (case sequence (map (\<lambda>kv. SerializeJSONProperty (snd kv)) ps) of
        Inl e \<Rightarrow> Inl e
      | Inr parts \<Rightarrow>
          Inr (Some (''{'' @ join_comma
                 (concat (map (\<lambda>(k, p). case p of None \<Rightarrow> [] | Some t \<Rightarrow> [QuoteJSONString k @ '':'' @ t])
                    (zip (map fst ps) parts)))
               @ ''}'')))"

text \<open>
  Every call of \<^verbatim>\<open>JSONStringify\<close> in \<^verbatim>\<open>js_config.ts\<close> passes an object literal; the
  argument here is the list of the literal's properties, so that the result is a string
  or a throw, never \<^verbatim>\<open>undefined\<close> (the case \<open>Inr None\<close> below does not arise for an
  object).
\<close>

definition JSONStringify :: "(string \<times> js_value) list \<Rightarrow> js_value + string" where
  "JSONStringify props =
     (case SerializeJSONProperty (JObject props) of
        Inl e \<Rightarrow> Inl e
      | Inr None \<Rightarrow> Inr []
      | Inr (Some t) \<Rightarrow> Inr t)"

section \<open>\<^verbatim>\<open>js_config.ts\<close>: loading config files\<close>

text \<open>The interface \<^verbatim>\<open>JsConfigResult\<close>, and an entry of the \<^verbatim>\<open>errors\<close> array.\<close>

record JsConfigResult =
  path :: string
  config :: js_value

record JsConfigFailure =
  failure_path :: string
  error :: string

text \<open>
  The objects handed to \<^verbatim>\<open>JSONStringify\<close>: the type annotations are erased at run time,
  an entry is an object with the two properties in the order they are written.
\<close>

definition JsConfigResult_object :: "JsConfigResult \<Rightarrow> js_value" where
  "JsConfigResult_object r = JObject [(''path'', JString (path r)), (''config'', config r)]"

definition JsConfigFailure_object :: "JsConfigFailure \<Rightarrow> js_value" where
  "JsConfigFailure_object f =
     JObject [(''path'', JString (failure_path f)), (''error'', JString (error f))]"

text \<open>The three shapes of \<^verbatim>\<open>LoadJsConfigsResult\<close>, as the object literals of the source.\<close>

definition Success :: "JsConfigResult list \<Rightarrow> (string \<times> js_value) list" where
  "Success successes = [(''Success'', JArray (map JsConfigResult_object successes))]"

definition Failures :: "JsConfigFailure list \<Rightarrow> (string \<times> js_value) list" where
  "Failures errors = [(''Failures'', JArray (map JsConfigFailure_object errors))]"

definition Error :: "string \<Rightarrow> (string \<times> js_value) list" where
  "Error message = [(''Error'', JString message)]"

text \<open>
  The result of \<^verbatim>\<open>Promise.allSettled\<close> for one promise. A promise is modelled by what it
  settles to: \<open>Inl reason\<close> when it rejects, \<open>Inr value\<close> when it fulfils.
\<close>

datatype 'a PromiseSettledResult = Fulfilled 'a | Rejected js_value

fun settled :: "js_value + 'a \<Rightarrow> 'a PromiseSettledResult" where
  "settled (Inl reason) = Rejected reason"
| "settled (Inr v) = Fulfilled v"

definition allSettled :: "(js_value + 'a) list \<Rightarrow> 'a PromiseSettledResult list" where
  "allSettled promises = map settled promises"

text \<open>
  The async arrow function mapped over \<^verbatim>\<open>paths\<close> (lines 36 to 48). The host's part,
  building the \<^verbatim>\<open>file://\<close> URL and importing it, is the parameter \<open>import_default\<close>:
  \<open>Inl reason\<close> when the URL constructor or the import throws \<open>reason\<close>, \<open>Inr d\<close> when
  the module loads and its \<^verbatim>\<open>default\<close> export is \<open>d\<close> (\<open>JUndefined\<close> when it has none).
\<close>

definition importConfig :: "(string \<Rightarrow> js_value + js_value) \<Rightarrow> string \<Rightarrow> js_value + JsConfigResult" where
  "importConfig import_default p =
     (case import_default p of
        Inl reason \<Rightarrow> Inl reason
      | Inr cfg \<Rightarrow>
          if typeof cfg \<noteq> ''object'' \<or> cfg = JNull
          then Inl (JError (''Config at '' @ p @ '' must export a default object''))
          else Inr \<lparr>path = p, config = cfg\<rparr>)"

text \<open>
  One turn of the loop of lines 54 to 61, on the pair of the arrays \<^verbatim>\<open>successes\<close> and
  \<^verbatim>\<open>errors\<close>. \<^verbatim>\<open>getErrorMessage\<close> (\<^verbatim>\<open>utils/utils.ts\<close>) is not among the sources and is
  the parameter \<open>getErrorMessage\<close>, a function that gives a string for every value, as
  its use at type \<^verbatim>\<open>string\<close> says. The index \<open>i\<close> is below the length of \<open>results\<close>,
  which is the length of \<open>paths\<close>.
\<close>

definition collect :: "(js_value \<Rightarrow> string) \<Rightarrow> string list \<Rightarrow> JsConfigResult PromiseSettledResult list \<Rightarrow>
    JsConfigResult list \<times> JsConfigFailure list \<Rightarrow> nat \<Rightarrow> JsConfigResult list \<times> JsConfigFailure list" where
  "collect getErrorMessage paths results acc i =
     (case results ! i of
        Fulfilled v \<Rightarrow> (fst acc @ [v], snd acc)
      | Rejected reason \<Rightarrow>
          (fst acc, snd acc @ [\<lparr>failure_path = paths ! i, error = getErrorMessage reason\<rparr>]))"

text \<open>The arrays \<^verbatim>\<open>successes\<close> and \<^verbatim>\<open>errors\<close> when the loop is over.\<close>

definition settle :: "(string \<Rightarrow> js_value + js_value) \<Rightarrow> (js_value \<Rightarrow> string) \<Rightarrow> string list \<Rightarrow>
    JsConfigResult list \<times> JsConfigFailure list" where
  "settle import_default getErrorMessage paths =
     (let results = allSettled (map (importConfig import_default) paths)
      in foldl (collect getErrorMessage paths results) ([], []) [0..<length results])"

text \<open>The body of the \<^verbatim>\<open>try\<close> block: \<open>Inl err\<close> when it throws \<open>err\<close>.\<close>

definition loadJsConfigs_try :: "(string \<Rightarrow> js_value + js_value) \<Rightarrow> (js_value \<Rightarrow> string) \<Rightarrow> string list \<Rightarrow>
    js_value + string" where
  "loadJsConfigs_try import_default getErrorMessage paths =
     (let (successes, errors) = settle import_default getErrorMessage paths
      in if length errors > 0 then JSONStringify (Failures errors)
         else JSONStringify (Success successes))"

text \<open>
  \<^verbatim>\<open>loadJsConfigs\<close>: the value the returned promise settles to, \<open>Inr text\<close> when it
  fulfils with \<open>text\<close> and \<open>Inl reason\<close> if it were to reject.
\<close>

definition loadJsConfigs :: "(string \<Rightarrow> js_value + js_value) \<Rightarrow> (js_value \<Rightarrow> string) \<Rightarrow> string list \<Rightarrow>
    js_value + string" where
  "loadJsConfigs import_default getErrorMessage paths =
     (case loadJsConfigs_try import_default getErrorMessage paths of
        Inr text \<Rightarrow> Inr text
      | Inl err \<Rightarrow> JSONStringify (Error (getErrorMessage err)))"

text \<open>
  Modelled from the spec: \<^verbatim>\<open>getErrorMessage\<close> of \<^verbatim>\<open>utils/utils.ts\<close>, which is not among the
  sources. The spec asks that every reported failure carries a non-empty message and
  that the message of a validation failure includes the path: the model returns the
  message of an \<^verbatim>\<open>Error\<close> when that is not empty and a fixed text for anything else. It
  is used only to instantiate the parameter \<open>getErrorMessage\<close> at concrete inputs.
\<close>

definition getErrorMessage :: "js_value \<Rightarrow> string" where
  "getErrorMessage err =
     (case err of
        JError message \<Rightarrow> if message \<noteq> [] then message else ''Unknown error''
      | _ \<Rightarrow> ''Unknown error'')"

section \<open>\<^verbatim>\<open>cli.ts\<close>: the lazily loaded subsystems\<close>

text \<open>A \<^verbatim>\<open>Uint8Array\<close>.\<close>

type_synonym buffer = "8 word list"

text \<open>What a bridge function can throw.\<close>

datatype exn = AssertionError

text \<open>
  Modelled from the spec: \<^verbatim>\<open>debugAssertIsNonNull\<close> of \<^verbatim>\<open>utils/asserts.ts\<close>, which is not among
  the sources. The spec says that a violated precondition is diagnosed by an assertion
  failure, which is fatal: the assertion throws on \<^verbatim>\<open>null\<close> and lets any other value
  through.
\<close>

definition debugAssertIsNonNull :: "'a option \<Rightarrow> exn + 'a" where
  "debugAssertIsNonNull v = (case v of None \<Rightarrow> Inl AssertionError | Some x \<Rightarrow> Inr x)"

text \<open>
  The functions exported by \<^verbatim>\<open>plugins/index.ts\<close> and \<^verbatim>\<open>workspace/index.ts\<close>. Neither module
  is among the sources, so the modules are parameters. Their functions keep state of
  their own between calls: a function takes the state of its module (\<open>'ps\<close> for plugins,
  \<open>'ws\<close> for workspaces) and returns it updated. A function that returns a promise is
  modelled by the value the promise resolves to. Buffer, rule and options ids are
  natural numbers.
\<close>

type_synonym 'ps loadPlugin_fn = "string \<Rightarrow> string option \<Rightarrow> bool \<Rightarrow> 'ps \<Rightarrow> string \<times> 'ps"

type_synonym 'ps setupRuleConfigs_fn = "string \<Rightarrow> 'ps \<Rightarrow> string option \<times> 'ps"

type_synonym 'ps lintFile_fn =
  "string \<Rightarrow> nat \<Rightarrow> buffer option \<Rightarrow> nat list \<Rightarrow> nat list \<Rightarrow> string \<Rightarrow> string \<Rightarrow> 'ps \<Rightarrow>
     string option \<times> 'ps"

type_synonym 'ws createWorkspace_fn = "string \<Rightarrow> 'ws \<Rightarrow> 'ws"

type_synonym 'ws destroyWorkspace_fn = "string \<Rightarrow> 'ws \<Rightarrow> 'ws"

record 'ps plugins_index =
  mod_loadPlugin :: "'ps loadPlugin_fn"
  mod_lintFile :: "'ps lintFile_fn"
  mod_setupRuleConfigs :: "'ps setupRuleConfigs_fn"

record 'ws workspace_index =
  mod_createWorkspace :: "'ws createWorkspace_fn"
  mod_destroyWorkspace :: "'ws destroyWorkspace_fn"

text \<open>
  A callback given to \<^verbatim>\<open>then\<close> on the promise of a dynamic import, waiting for the import
  to resolve: the closure of \<^verbatim>\<open>loadPluginWrapper\<close> with the arguments it captured, or the
  closure of \<^verbatim>\<open>createWorkspaceWrapper\<close>.
\<close>

datatype job = PluginsThen string "string option" bool | WorkspaceThen string

text \<open>
  A promise returned by a wrapper: already resolved with a value, or pending until the
  callback the same call registered has run.
\<close>

datatype 'a promise = Resolved 'a | Pending

text \<open>
  The state of the module \<^verbatim>\<open>cli.ts\<close>: its five \<^verbatim>\<open>let\<close> variables, \<^verbatim>\<open>null\<close> being \<open>None\<close>;
  the state of the two loaded modules; the specifiers given to \<^verbatim>\<open>import()\<close> so far, in
  order; and the callbacks still waiting for their import.
\<close>

record ('ps, 'ws) cli =
  loadPlugin :: "'ps loadPlugin_fn option"
  setupRuleConfigs :: "'ps setupRuleConfigs_fn option"
  lintFile :: "'ps lintFile_fn option"
  createWorkspace :: "'ws createWorkspace_fn option"
  destroyWorkspace :: "'ws destroyWorkspace_fn option"
  plugins :: 'ps
  workspaces :: 'ws
  imported :: "string list"
  pending :: "job list"

text \<open>The state when the module has been evaluated and no bridge function called.\<close>

definition initial :: "'ps \<Rightarrow> 'ws \<Rightarrow> ('ps, 'ws) cli" where
  "initial ps ws =
     \<lparr>loadPlugin = None, setupRuleConfigs = None, lintFile = None,
      createWorkspace = None, destroyWorkspace = None,
      plugins = ps, workspaces = ws, imported = [], pending = []\<rparr>"

text \<open>
  \<^verbatim>\<open>createWorkspaceWrapper\<close>, up to the return: with the variable unset it starts the import
  and registers the callback; otherwise it calls the bound function.
\<close>

definition createWorkspaceWrapper :: "string \<Rightarrow> ('ps, 'ws) cli \<Rightarrow> (exn + unit promise) \<times> ('ps, 'ws) cli" where
  "createWorkspaceWrapper workspace st =
     (if createWorkspace st = None
      then (Inr Pending,
            st\<lparr>imported := imported st @ [''./workspace/index.ts''],
               pending := pending st @ [WorkspaceThen workspace]\<rparr>)
      else (case debugAssertIsNonNull (createWorkspace st) of
              Inl e \<Rightarrow> (Inl e, st)
            | Inr f \<Rightarrow> (Inr (Resolved ()), st\<lparr>workspaces := f workspace (workspaces st)\<rparr>)))"

text \<open>
  The callback of lines 23 to 26, run with the module the import resolved to: it assigns
  the two variables, then calls \<^verbatim>\<open>createWorkspace\<close>, which is the function just assigned.
\<close>

definition createWorkspace_then :: "'ws workspace_index \<Rightarrow> string \<Rightarrow> ('ps, 'ws) cli \<Rightarrow> ('ps, 'ws) cli" where
  "createWorkspace_then module workspace st =
     (let st' = st\<lparr>createWorkspace := Some (mod_createWorkspace module),
                    destroyWorkspace := Some (mod_destroyWorkspace module)\<rparr>
      in st'\<lparr>workspaces := mod_createWorkspace module workspace (workspaces st')\<rparr>)"

definition destroyWorkspaceWrapper :: "string \<Rightarrow> ('ps, 'ws) cli \<Rightarrow> (exn + unit) \<times> ('ps, 'ws) cli" where
  "destroyWorkspaceWrapper workspace st =
     (case debugAssertIsNonNull (destroyWorkspace st) of
        Inl e \<Rightarrow> (Inl e, st)
      | Inr f \<Rightarrow> (Inr (), st\<lparr>workspaces := f workspace (workspaces st)\<rparr>))"

definition loadPluginWrapper :: "string \<Rightarrow> string option \<Rightarrow> bool \<Rightarrow> ('ps, 'ws) cli \<Rightarrow>
    (exn + string promise) \<times> ('ps, 'ws) cli" where
  "loadPluginWrapper p pluginName pluginNameIsAlias st =
     (if loadPlugin st = None
      then (Inr Pending,
            st\<lparr>imported := imported st @ [''./plugins/index.ts''],
               pending := pending st @ [PluginsThen p pluginName pluginNameIsAlias]\<rparr>)
      else (case debugAssertIsNonNull (loadPlugin st) of
              Inl e \<Rightarrow> (Inl e, st)
            | Inr f \<Rightarrow>
                (let (result, ps) = f p pluginName pluginNameIsAlias (plugins st)
                 in (Inr (Resolved result), st\<lparr>plugins := ps\<rparr>))))"

text \<open>
  The callback of lines 62 to 65: it assigns the three variables, then calls
  \<^verbatim>\<open>loadPlugin\<close>, the function just assigned, with the arguments of the call that started
  the import. The string is what the promise of that call resolves to.
\<close>

definition loadPlugin_then :: "'ps plugins_index \<Rightarrow> string \<Rightarrow> string option \<Rightarrow> bool \<Rightarrow> ('ps, 'ws) cli \<Rightarrow>
    string \<times> ('ps, 'ws) cli" where
  "loadPlugin_then module p pluginName pluginNameIsAlias st =
     (let st' = st\<lparr>loadPlugin := Some (mod_loadPlugin module),
                    lintFile := Some (mod_lintFile module),
                    setupRuleConfigs := Some (mod_setupRuleConfigs module)\<rparr>;
          (result, ps) = mod_loadPlugin module p pluginName pluginNameIsAlias (plugins st')
      in (result, st'\<lparr>plugins := ps\<rparr>))"

definition setupRuleConfigsWrapper :: "string \<Rightarrow> ('ps, 'ws) cli \<Rightarrow> (exn + string option) \<times> ('ps, 'ws) cli" where
  "setupRuleConfigsWrapper optionsJSON st =
     (case debugAssertIsNonNull (setupRuleConfigs st) of
        Inl e \<Rightarrow> (Inl e, st)
      | Inr f \<Rightarrow>
          (let (result, ps) = f optionsJSON (plugins st)
           in (Inr result, st\<lparr>plugins := ps\<rparr>)))"

definition lintFileWrapper :: "string \<Rightarrow> nat \<Rightarrow> buffer option \<Rightarrow> nat list \<Rightarrow> nat list \<Rightarrow> string \<Rightarrow> string \<Rightarrow>
    ('ps, 'ws) cli \<Rightarrow> (exn + string option) \<times> ('ps, 'ws) cli" where
  "lintFileWrapper filePath bufferId buffer ruleIds optionsIds settingsJSON globalsJSON st =
     (case debugAssertIsNonNull (lintFile st) of
        Inl e \<Rightarrow> (Inl e, st)
      | Inr f \<Rightarrow>
          (let (result, ps) =
                 f filePath bufferId buffer ruleIds optionsIds settingsJSON globalsJSON (plugins st)
           in (Inr result, st\<lparr>plugins := ps\<rparr>)))"

subsection \<open>Sequences of bridge calls\<close>

text \<open>
  What the native side and the event loop can do to the state: call one of the five
  callbacks, or let the import behind the \<open>k\<close>-th waiting callback resolve, which runs
  that callback. Imports may resolve in any order, and a call may come while callbacks
  are waiting. An import that never resolves leaves its callback waiting; a failing
  import of one of the two modules is not modelled.
\<close>

datatype call =
    LoadPlugin string "string option" bool
  | SetupRuleConfigs string
  | LintFile string nat "buffer option" "nat list" "nat list" string string
  | CreateWorkspace string
  | DestroyWorkspace string
  | ImportResolved nat

definition resolve :: "'ps plugins_index \<Rightarrow> 'ws workspace_index \<Rightarrow> nat \<Rightarrow> ('ps, 'ws) cli \<Rightarrow> ('ps, 'ws) cli" where
  "resolve pm wm k st =
     (if k < length (pending st)
      then (let st' = st\<lparr>pending := take k (pending st) @ drop (Suc k) (pending st)\<rparr>
            in case pending st ! k of
                 PluginsThen p pluginName pluginNameIsAlias \<Rightarrow>
                   snd (loadPlugin_then pm p pluginName pluginNameIsAlias st')
               | WorkspaceThen workspace \<Rightarrow> createWorkspace_then wm workspace st')
      else st)"

fun step :: "'ps plugins_index \<Rightarrow> 'ws workspace_index \<Rightarrow> call \<Rightarrow> ('ps, 'ws) cli \<Rightarrow> exn + ('ps, 'ws) cli" where
  "step pm wm (LoadPlugin p pluginName pluginNameIsAlias) st =
     (case loadPluginWrapper p pluginName pluginNameIsAlias st of
        (Inl e, st') \<Rightarrow> Inl e | (Inr r, st') \<Rightarrow> Inr st')"
| "step pm wm (SetupRuleConfigs optionsJSON) st =
     (case setupRuleConfigsWrapper optionsJSON st of
        (Inl e, st') \<Rightarrow> Inl e | (Inr r, st') \<Rightarrow> Inr st')"
| "step pm wm (LintFile filePath bufferId buffer ruleIds optionsIds settingsJSON globalsJSON) st =
     (case lintFileWrapper filePath bufferId buffer ruleIds optionsIds settingsJSON globalsJSON st of
        (Inl e, st') \<Rightarrow> Inl e | (Inr r, st') \<Rightarrow> Inr st')"
| "step pm wm (CreateWorkspace workspace) st =
     (case createWorkspaceWrapper workspace st of
        (Inl e, st') \<Rightarrow> Inl e | (Inr r, st') \<Rightarrow> Inr st')"
| "step pm wm (DestroyWorkspace workspace) st =
     (case destroyWorkspaceWrapper workspace st of
        (Inl e, st') \<Rightarrow> Inl e | (Inr r, st') \<Rightarrow> Inr st')"
| "step pm wm (ImportResolved k) st = Inr (resolve pm wm k st)"

text \<open>A sequence of calls; a throw is fatal and ends it.\<close>

fun run :: "'ps plugins_index \<Rightarrow> 'ws workspace_index \<Rightarrow> call list \<Rightarrow> ('ps, 'ws) cli \<Rightarrow> exn + ('ps, 'ws) cli" where
  "run pm wm [] st = Inr st"
| "run pm wm (c # cs) st =
     (case step pm wm c st of Inl e \<Rightarrow> Inl e | Inr st' \<Rightarrow> run pm wm cs st')"

subsection \<open>The entry point\<close>

text \<open>
  Lines 113 to 129. \<^verbatim>\<open>lint\<close> is the native binding (\<^verbatim>\<open>bindings.js\<close>), a parameter: given the
  arguments and the five callbacks, \<open>lint\<close> is the boolean its promise resolves to.
  \<^verbatim>\<open>process.exitCode\<close> is \<open>None\<close> while it is \<^verbatim>\<open>undefined\<close>.
\<close>

record process =
  argv :: "string list"
  exitCode :: "int option"

definition main :: "(string list \<Rightarrow>
      (string \<Rightarrow> string option \<Rightarrow> bool \<Rightarrow> ('ps, 'ws) cli \<Rightarrow> (exn + string promise) \<times> ('ps, 'ws) cli) \<Rightarrow>
      (string \<Rightarrow> ('ps, 'ws) cli \<Rightarrow> (exn + string option) \<times> ('ps, 'ws) cli) \<Rightarrow>
      (string \<Rightarrow> nat \<Rightarrow> buffer option \<Rightarrow> nat list \<Rightarrow> nat list \<Rightarrow> string \<Rightarrow> string \<Rightarrow>
         ('ps, 'ws) cli \<Rightarrow> (exn + string option) \<times> ('ps, 'ws) cli) \<Rightarrow>
      (string \<Rightarrow> ('ps, 'ws) cli \<Rightarrow> (exn + unit promise) \<times> ('ps, 'ws) cli) \<Rightarrow>
      (string \<Rightarrow> ('ps, 'ws) cli \<Rightarrow> (exn + unit) \<times> ('ps, 'ws) cli) \<Rightarrow> bool) \<Rightarrow>
    process \<Rightarrow> process" where
  "main lint proc =
     (let args = drop 2 (argv proc);
          success = lint args loadPluginWrapper setupRuleConfigsWrapper lintFileWrapper
                      createWorkspaceWrapper destroyWorkspaceWrapper
      in if \<not> success then proc\<lparr>exitCode := Some 1\<rparr> else proc)"

subsection \<open>The buffer cache of the plugin subsystem\<close>

text \<open>
  Modelled from the spec: \<^verbatim>\<open>lintFile\<close> of \<^verbatim>\<open>plugins/index.ts\<close> and its buffer cache, which are
  not among the sources. The spec: the cache maps a \<^verbatim>\<open>bufferId\<close> to the content most
  recently sent for it; each lint call that carries content creates or overwrites the
  entry; a call that omits the content reuses what is cached for the id, and fails, with
  a JSON-encoded error description as its result, if nothing is cached. Running the rules
  on the content is the native side's and the rules' work, the parameter \<open>run_rules\<close>:
  its result is the JSON text of the diagnostics, or \<open>None\<close> for \<^verbatim>\<open>null\<close>.
\<close>

record plugins_state =
  buffers :: "nat \<rightharpoonup> buffer"

definition lint_failure :: "string \<Rightarrow> string" where
  \<open>lint_failure message = ''{"Failure":'' @ QuoteJSONString message @ ''}''\<close>

definition plugins_lintFile ::
    "(string \<Rightarrow> buffer \<Rightarrow> nat list \<Rightarrow> nat list \<Rightarrow> string \<Rightarrow> string \<Rightarrow> string option) \<Rightarrow>
     plugins_state lintFile_fn" where
  "plugins_lintFile run_rules filePath bufferId buffer ruleIds optionsIds settingsJSON globalsJSON ps =
     (case buffer of
        Some content \<Rightarrow>
          (run_rules filePath content ruleIds optionsIds settingsJSON globalsJSON,
           ps\<lparr>buffers := (buffers ps)(bufferId \<mapsto> content)\<rparr>)
      | None \<Rightarrow>
          (case buffers ps bufferId of
             None \<Rightarrow> (Some (lint_failure ''No buffer is cached for this buffer id''), ps)
           | Some content \<Rightarrow>
               (run_rules filePath content ruleIds optionsIds settingsJSON globalsJSON, ps)))"

section \<open>The arrays of the loop, described by index\<close>

text \<open>
  What \<^verbatim>\<open>successes\<close> and \<^verbatim>\<open>errors\<close> hold after the first \<open>k\<close> turns of the loop: the
  values of the fulfilled promises and the entries of the rejected ones, by increasing
  index.
\<close>

definition successes_upto :: "(string \<Rightarrow> js_value + js_value) \<Rightarrow> string list \<Rightarrow> nat \<Rightarrow> JsConfigResult list" where
  "successes_upto import_default paths k =
     map (\<lambda>i. projr (importConfig import_default (paths ! i)))
       (filter (\<lambda>i. \<not> isl (importConfig import_default (paths ! i))) [0..<k])"

definition errors_upto :: "(string \<Rightarrow> js_value + js_value) \<Rightarrow> (js_value \<Rightarrow> string) \<Rightarrow> string list \<Rightarrow> nat \<Rightarrow>
    JsConfigFailure list" where
  "errors_upto import_default gem paths k =
     map (\<lambda>i. \<lparr>failure_path = paths ! i,
                 error = gem (projl (importConfig import_default (paths ! i)))\<rparr>)
       (filter (\<lambda>i. isl (importConfig import_default (paths ! i))) [0..<k])"

text \<open>The JSON text of one entry of \<^verbatim>\<open>errors\<close>.\<close>

definition failure_text :: "JsConfigFailure \<Rightarrow> string" where
  \<open>failure_text f =
     ''{"path":'' @ QuoteJSONString (failure_path f) @ '',"error":'' @ QuoteJSONString (error f) @ ''}''\<close>

section \<open>The variables of \<^verbatim>\<open>cli.ts\<close> in the states that can be reached\<close>

text \<open>
  The variables of a subsystem are all unset, or all bound to the functions its module
  exports.
\<close>

definition wired :: "'ps plugins_index \<Rightarrow> 'ws workspace_index \<Rightarrow> ('ps, 'ws) cli \<Rightarrow> bool" where
  "wired pm wm st \<longleftrightarrow>
     (loadPlugin st = None \<and> setupRuleConfigs st = None \<and> lintFile st = None \<or>
      loadPlugin st = Some (mod_loadPlugin pm) \<and>
      setupRuleConfigs st = Some (mod_setupRuleConfigs pm) \<and>
      lintFile st = Some (mod_lintFile pm)) \<and>
     (createWorkspace st = None \<and> destroyWorkspace st = None \<or>
      createWorkspace st = Some (mod_createWorkspace wm) \<and>
      destroyWorkspace st = Some (mod_destroyWorkspace wm))"

section \<open>Inputs used at concrete instances\<close>

text \<open>
  A host with three config files, as in the scenario of the spec: one exports the empty
  object, one exports an object with rules, one exports a string; any other path cannot
  be imported.
\<close>

definition scenario_import :: "string \<Rightarrow> js_value + js_value" where
  "scenario_import p =
     (if p = ''/a/good.config.ts'' then Inr (JObject [])
      else if p = ''/d/rules.config.ts'' then Inr (JObject [(''rules'', JObject [])])
      else if p = ''/b/bad.config.ts'' then Inr (JString ''rules'')
      else Inl (JError (''Cannot find module '' @ p)))"

text \<open>A host whose every config file is \<^verbatim>\<open>export default { maxWarnings: 10n }\<close>.\<close>

definition bigint_import :: "string \<Rightarrow> js_value + js_value" where
  "bigint_import p = Inr (JObject [(''maxWarnings'', JBigInt 10)])"

text \<open>
  Two modules that only log: the state of each is the list of the calls made to it.
\<close>

definition logging_plugins :: "string list plugins_index" where
  "logging_plugins =
     \<lparr>mod_loadPlugin = (\<lambda>p pluginName pluginNameIsAlias log. (''loaded '' @ p, log @ [''loadPlugin '' @ p])),
      mod_lintFile = (\<lambda>filePath bufferId buffer ruleIds optionsIds settingsJSON globalsJSON log.
                        (None, log @ [''lintFile '' @ filePath])),
      mod_setupRuleConfigs = (\<lambda>optionsJSON log. (None, log @ [''setupRuleConfigs '' @ optionsJSON]))\<rparr>"

definition logging_workspace :: "string list workspace_index" where
  "logging_workspace =
     \<lparr>mod_createWorkspace = (\<lambda>workspace log. log @ [''createWorkspace '' @ workspace]),
      mod_destroyWorkspace = (\<lambda>workspace log. log @ [''destroyWorkspace '' @ workspace])\<rparr>"

text \<open>
  The state after one call of \<^verbatim>\<open>loadPluginWrapper\<close> on the logging modules and the
  resolution of its import.
\<close>

definition plugins_loaded :: "(string list, string list) cli" where
  "plugins_loaded =
     \<lparr>loadPlugin = Some (mod_loadPlugin logging_plugins),
      setupRuleConfigs = Some (mod_setupRuleConfigs logging_plugins),
      lintFile = Some (mod_lintFile logging_plugins),
      createWorkspace = None, destroyWorkspace = None,
      plugins = [''loadPlugin /p/plugin.js''], workspaces = [],
      imported = [''./plugins/index.ts''], pending = []\<rparr>"

text \<open>
  Rules that report the number of bytes they were given, and a state of \<^verbatim>\<open>cli.ts\<close> whose
  \<^verbatim>\<open>lintFile\<close> is bound to the modelled function with an empty buffer cache.
\<close>

definition byte_count_rules :: "string \<Rightarrow> buffer \<Rightarrow> nat list \<Rightarrow> nat list \<Rightarrow> string \<Rightarrow> string \<Rightarrow> string option" where
  "byte_count_rules filePath content ruleIds optionsIds settingsJSON globalsJSON =
     Some (decimal (length content))"

definition lint_ready :: "(plugins_state, unit) cli" where
  "lint_ready =
     (initial \<lparr>buffers = Map.empty\<rparr> ())\<lparr>lintFile := Some (plugins_lintFile byte_count_rules)\<rparr>"

text \<open>A native \<^verbatim>\<open>lint\<close> that calls nothing back and reports the given outcome.\<close>

definition lint_reports :: "bool \<Rightarrow> string list \<Rightarrow>
      (string \<Rightarrow> string option \<Rightarrow> bool \<Rightarrow> (unit, unit) cli \<Rightarrow> (exn + string promise) \<times> (unit, unit) cli) \<Rightarrow>
      (string \<Rightarrow> (unit, unit) cli \<Rightarrow> (exn + string option) \<times> (unit, unit) cli) \<Rightarrow>
      (string \<Rightarrow> nat \<Rightarrow> buffer option \<Rightarrow> nat list \<Rightarrow> nat list \<Rightarrow> string \<Rightarrow> string \<Rightarrow>
         (unit, unit) cli \<Rightarrow> (exn + string option) \<times> (unit, unit) cli) \<Rightarrow>
      (string \<Rightarrow> (unit, unit) cli \<Rightarrow> (exn + unit promise) \<times> (unit, unit) cli) \<Rightarrow>
      (string \<Rightarrow> (unit, unit) cli \<Rightarrow> (exn + unit) \<times> (unit, unit) cli) \<Rightarrow> bool" where
  "lint_reports success args loadPluginCb setupRuleConfigsCb lintFileCb createWorkspaceCb
     destroyWorkspaceCb = success"

section \<open>Properties of config loading\<close>

subsection \<open>The loop\<close>

lemma collect_prefix:
  "k \<le> length paths \<Longrightarrow>
   foldl (collect gem paths (allSettled (map (importConfig imp) paths))) ([], []) [0..<k] =
     (successes_upto imp paths k, errors_upto imp gem paths k)"
proof (induction k)
  case 0
  then show ?case by (simp add: successes_upto_def errors_upto_def)
next
  case (Suc k)
  then have k: "k < length paths" by simp
  show ?case
  proof (cases "importConfig imp (paths ! k)")
    case (Inl reason)
    with Suc k show ?thesis
      by (simp add: collect_def allSettled_def successes_upto_def errors_upto_def)
  next
    case (Inr v)
    with Suc k show ?thesis
      by (simp add: collect_def allSettled_def successes_upto_def errors_upto_def)
  qed
qed

lemma settle_eq:
  "settle imp gem paths =
     (successes_upto imp paths (length paths), errors_upto imp gem paths (length paths))"
  using collect_prefix [of "length paths" paths gem imp]
  by (simp add: settle_def allSettled_def Let_def)

lemma nth_filter_upt:
  "map (\<lambda>i. xs ! i) (filter (\<lambda>i. P (xs ! i)) [0..<length xs]) = filter P xs"
proof -
  have "filter P xs = filter P (map (\<lambda>i. xs ! i) [0..<length xs])"
    by (simp add: map_nth)
  also have "\<dots> = map (\<lambda>i. xs ! i) (filter (\<lambda>i. P (xs ! i)) [0..<length xs])"
    by (simp add: filter_map comp_def)
  finally show ?thesis by simp
qed

lemma errors_upto_paths:
  "map failure_path (errors_upto imp gem paths (length paths)) =
     filter (\<lambda>p. isl (importConfig imp p)) paths"
  using nth_filter_upt [of paths "\<lambda>p. isl (importConfig imp p)"]
  by (simp add: errors_upto_def comp_def)

lemma errors_upto_nonempty:
  "errors_upto imp gem paths (length paths) \<noteq> [] \<longleftrightarrow> (\<exists>p\<in>set paths. isl (importConfig imp p))"
proof -
  have "errors_upto imp gem paths (length paths) = [] \<longleftrightarrow>
          map failure_path (errors_upto imp gem paths (length paths)) = []"
    by simp
  also have "\<dots> \<longleftrightarrow> \<not> (\<exists>p\<in>set paths. isl (importConfig imp p))"
    unfolding errors_upto_paths by (simp add: filter_empty_conv)
  finally show ?thesis by blast
qed

lemma successes_upto_all:
  assumes "\<forall>p\<in>set paths. importConfig imp p = Inr (f p)"
  shows "successes_upto imp paths (length paths) = map f paths"
    and "errors_upto imp gem paths (length paths) = []"
proof -
  have ok: "\<And>i. i < length paths \<Longrightarrow> importConfig imp (paths ! i) = Inr (f (paths ! i))"
    using assms by simp
  have keep: "filter (\<lambda>i. \<not> isl (importConfig imp (paths ! i))) [0..<length paths] = [0..<length paths]"
    by (rule filter_True) (simp add: ok)
  have "successes_upto imp paths (length paths) = map (\<lambda>i. f (paths ! i)) [0..<length paths]"
    unfolding successes_upto_def keep by (rule map_cong) (simp_all add: ok)
  also have "\<dots> = map f (map (\<lambda>i. paths ! i) [0..<length paths])"
    by (simp add: comp_def)
  finally show "successes_upto imp paths (length paths) = map f paths"
    by (simp add: map_nth)
  have "filter (\<lambda>i. isl (importConfig imp (paths ! i))) [0..<length paths] = []"
    by (simp add: filter_empty_conv ok)
  then show "errors_upto imp gem paths (length paths) = []"
    by (simp add: errors_upto_def)
qed

lemma rejected_recorded:
  assumes "p \<in> set paths" and "importConfig imp p = Inl reason"
  shows "\<lparr>failure_path = p, error = gem reason\<rparr> \<in> set (errors_upto imp gem paths (length paths))"
proof -
  from assms(1) obtain i where i: "i < length paths" "paths ! i = p"
    by (auto simp: in_set_conv_nth)
  with assms(2) have "i \<in> set (filter (\<lambda>i. isl (importConfig imp (paths ! i))) [0..<length paths])"
    by simp
  then have "(\<lambda>i. \<lparr>failure_path = paths ! i, error = gem (projl (importConfig imp (paths ! i)))\<rparr>) i
      \<in> set (errors_upto imp gem paths (length paths))"
    unfolding errors_upto_def set_map by (rule imageI)
  with i assms(2) show ?thesis by simp
qed

lemma fulfilled_recorded:
  assumes "p \<in> set paths" and "importConfig imp p = Inr r"
  shows "r \<in> set (successes_upto imp paths (length paths))"
proof -
  from assms(1) obtain i where i: "i < length paths" "paths ! i = p"
    by (auto simp: in_set_conv_nth)
  with assms(2) have "i \<in> set (filter (\<lambda>i. \<not> isl (importConfig imp (paths ! i))) [0..<length paths])"
    by simp
  then have "(\<lambda>i. projr (importConfig imp (paths ! i))) i \<in> set (successes_upto imp paths (length paths))"
    unfolding successes_upto_def set_map by (rule imageI)
  with i assms(2) show ?thesis by simp
qed

subsection \<open>The JSON text of the three shapes\<close>

lemma quote_Success: \<open>QuoteJSONString ''Success'' = ''"Success"''\<close>
  by (simp add: QuoteJSONString_def quote_char_def)

lemma quote_Failures: \<open>QuoteJSONString ''Failures'' = ''"Failures"''\<close>
  by (simp add: QuoteJSONString_def quote_char_def)

lemma quote_Error: \<open>QuoteJSONString ''Error'' = ''"Error"''\<close>
  by (simp add: QuoteJSONString_def quote_char_def)

lemma quote_path: \<open>QuoteJSONString ''path'' = ''"path"''\<close>
  by (simp add: QuoteJSONString_def quote_char_def)

lemma quote_error: \<open>QuoteJSONString ''error'' = ''"error"''\<close>
  by (simp add: QuoteJSONString_def quote_char_def)

lemma Serialize_failure:
  "SerializeJSONProperty (JsConfigFailure_object f) = Inr (Some (failure_text f))"
  by (simp add: JsConfigFailure_object_def failure_text_def quote_path quote_error)

lemma sequence_failures:
  "sequence (map (\<lambda>f. SerializeJSONProperty (JsConfigFailure_object f)) fs) =
     Inr (map (\<lambda>f. Some (failure_text f)) fs)"
  by (induction fs) (simp_all add: Serialize_failure)

lemma JSONStringify_Failures:
  \<open>JSONStringify (Failures fs) = Inr (''{"Failures":['' @ join_comma (map failure_text fs) @ '']}'')\<close>
  by (simp add: JSONStringify_def Failures_def sequence_failures quote_Failures comp_def)

lemma JSONStringify_Error:
  \<open>JSONStringify (Error m) = Inr (''{"Error":'' @ QuoteJSONString m @ ''}'')\<close>
  by (simp add: JSONStringify_def Error_def quote_Error)

lemma JSONStringify_Success:
  \<open>JSONStringify (Success rs) =
     (case sequence (map (\<lambda>r. SerializeJSONProperty (JsConfigResult_object r)) rs) of
        Inl e \<Rightarrow> Inl e
      | Inr parts \<Rightarrow>
          Inr (''{"Success":['' @
               join_comma (map (\<lambda>p. case p of None \<Rightarrow> ''null'' | Some t \<Rightarrow> t) parts) @ '']}''))\<close>
  by (simp add: JSONStringify_def Success_def quote_Success comp_def split: sum.splits)

lemma JSONStringify_Success_prefix:
  assumes \<open>JSONStringify (Success rs) = Inr out\<close>
  shows \<open>prefix ''{"Success":['' out\<close>
  using assms by (auto simp: JSONStringify_Success split: sum.splits)

lemma JSONStringify_Failures_prefix:
  assumes \<open>JSONStringify (Failures fs) = Inr out\<close>
  shows \<open>prefix ''{"Failures":['' out\<close>
  using assms by (auto simp: JSONStringify_Failures)

lemma JSONStringify_Error_prefix:
  assumes \<open>JSONStringify (Error m) = Inr out\<close>
  shows \<open>prefix ''{"Error":"'' out\<close>
  using assms by (auto simp: JSONStringify_Error QuoteJSONString_def)

subsection \<open>The result by cases\<close>

lemma loadJsConfigs_try_eq:
  "loadJsConfigs_try imp gem paths =
     (if errors_upto imp gem paths (length paths) \<noteq> []
      then JSONStringify (Failures (errors_upto imp gem paths (length paths)))
      else JSONStringify (Success (successes_upto imp paths (length paths))))"
  by (simp add: loadJsConfigs_try_def settle_eq)

lemma loadJsConfigs_Failures:
  assumes "errors_upto imp gem paths (length paths) \<noteq> []"
  shows "loadJsConfigs imp gem paths =
           JSONStringify (Failures (errors_upto imp gem paths (length paths)))"
  using assms by (simp add: loadJsConfigs_def loadJsConfigs_try_eq JSONStringify_Failures)

lemma loadJsConfigs_all_loaded:
  assumes "\<forall>p\<in>set paths. importConfig imp p = Inr \<lparr>path = p, config = cfg p\<rparr>"
  shows "settle imp gem paths = (map (\<lambda>p. \<lparr>path = p, config = cfg p\<rparr>) paths, [])"
    and "loadJsConfigs_try imp gem paths =
           JSONStringify (Success (map (\<lambda>p. \<lparr>path = p, config = cfg p\<rparr>) paths))"
  using successes_upto_all [OF assms]
  by (simp_all add: settle_eq loadJsConfigs_try_eq)

lemma not_Failures_when_none_fails:
  assumes "errors_upto imp gem paths (length paths) = []"
  shows "loadJsConfigs imp gem paths \<noteq> JSONStringify (Failures es)"
proof (cases "loadJsConfigs_try imp gem paths")
  case (Inl err)
  then have "loadJsConfigs imp gem paths = JSONStringify (Error (gem err))"
    by (simp add: loadJsConfigs_def)
  then show ?thesis
    by (simp add: JSONStringify_Error JSONStringify_Failures)
next
  case (Inr out)
  with assms have "JSONStringify (Success (successes_upto imp paths (length paths))) = Inr out"
    by (simp add: loadJsConfigs_try_eq)
  then have \<open>prefix ''{"Success":['' out\<close>
    by (rule JSONStringify_Success_prefix)
  moreover from Inr have "loadJsConfigs imp gem paths = Inr out"
    by (simp add: loadJsConfigs_def)
  ultimately show ?thesis
    by (auto simp: JSONStringify_Failures)
qed

subsection \<open>The returned text\<close>

lemma sublist_join_comma:
  "x \<in> set xs \<Longrightarrow> sublist x (join_comma xs)"
proof (induction xs rule: join_comma.induct)
  case 1
  then show ?case by simp
next
  case (2 y)
  then show ?case by simp
next
  case (3 y z zs)
  show ?case
  proof (cases "x = y")
    case True
    then show ?thesis by simp
  next
    case False
    with 3 have "sublist x (join_comma (z # zs))" by simp
    moreover have "sublist (join_comma (z # zs)) ((y @ '','') @ join_comma (z # zs))"
      by (rule sublist_append_leftI)
    ultimately have "sublist x ((y @ '','') @ join_comma (z # zs))"
      by (rule sublist_order.order_trans)
    then show ?thesis by simp
  qed
qed

lemma failure_text_fun:
  \<open>failure_text =
     (\<lambda>f. ''{"path":'' @ QuoteJSONString (failure_path f) @ '',"error":'' @
           QuoteJSONString (error f) @ ''}'')\<close>
  by (rule ext) (simp add: failure_text_def)

lemma loadJsConfigs_Failures_text:
  assumes "errors_upto imp gem paths (length paths) \<noteq> []"
  shows \<open>loadJsConfigs imp gem paths =
     Inr (''{"Failures":['' @
          join_comma (map (\<lambda>f. ''{"path":'' @ QuoteJSONString (failure_path f) @ '',"error":'' @
                                  QuoteJSONString (error f) @ ''}'')
                        (errors_upto imp gem paths (length paths))) @ '']}'')\<close>
  using loadJsConfigs_Failures [OF assms]
  by (simp add: JSONStringify_Failures failure_text_fun)

lemma Serialize_result:
  assumes "SerializeJSONProperty (config r) = Inr (Some t)"
  shows \<open>SerializeJSONProperty (JsConfigResult_object r) =
     Inr (Some (''{"path":'' @ QuoteJSONString (path r) @ '',"config":'' @ t @ ''}''))\<close>
  using assms
  by (simp add: JsConfigResult_object_def quote_path QuoteJSONString_def [of "''config''"] quote_char_def)

lemma sequence_results:
  assumes "\<forall>r\<in>set rs. SerializeJSONProperty (config r) = Inr (Some (t r))"
  shows \<open>sequence (map (\<lambda>r. SerializeJSONProperty (JsConfigResult_object r)) rs) =
     Inr (map (\<lambda>r. Some (''{"path":'' @ QuoteJSONString (path r) @ '',"config":'' @ t r @ ''}'')) rs)\<close>
  using assms by (induction rs) (simp_all add: Serialize_result)

lemma JSONStringify_Success_text:
  assumes "\<forall>r\<in>set rs. SerializeJSONProperty (config r) = Inr (Some (t r))"
  shows \<open>JSONStringify (Success rs) =
     Inr (''{"Success":['' @
          join_comma (map (\<lambda>r. ''{"path":'' @ QuoteJSONString (path r) @ '',"config":'' @ t r @ ''}'') rs) @
          '']}'')\<close>
  by (simp add: JSONStringify_Success sequence_results [OF assms] comp_def)

lemma loaded_not_in_errors:
  assumes "importConfig imp p = Inr r"
  shows "\<forall>f\<in>set (errors_upto imp gem paths (length paths)). failure_path f \<noteq> p"
  using assms by (auto simp: errors_upto_def)

lemma loadJsConfigs_Success_text:
  assumes "errors_upto imp gem paths (length paths) = []"
    and "\<forall>r\<in>set (successes_upto imp paths (length paths)).
           SerializeJSONProperty (config r) = Inr (Some (t r))"
  shows \<open>loadJsConfigs imp gem paths =
     Inr (''{"Success":['' @
          join_comma (map (\<lambda>r. ''{"path":'' @ QuoteJSONString (path r) @ '',"config":'' @ t r @ ''}'')
                        (successes_upto imp paths (length paths))) @ '']}'')\<close>
  using assms(1) JSONStringify_Success_text [OF assms(2)]
  by (simp add: loadJsConfigs_def loadJsConfigs_try_eq)

subsection \<open>The scenario\<close>

lemma scenario_good:
  "importConfig scenario_import ''/a/good.config.ts'' =
     Inr \<lparr>path = ''/a/good.config.ts'', config = JObject []\<rparr>"
  by (simp add: importConfig_def scenario_import_def)

lemma scenario_rules:
  "importConfig scenario_import ''/d/rules.config.ts'' =
     Inr \<lparr>path = ''/d/rules.config.ts'', config = JObject [(''rules'', JObject [])]\<rparr>"
  by (simp add: importConfig_def scenario_import_def)

lemma scenario_bad:
  "importConfig scenario_import ''/b/bad.config.ts'' =
     Inl (JError ''Config at /b/bad.config.ts must export a default object'')"
  by (simp add: importConfig_def scenario_import_def)

lemma scenario_missing:
  "importConfig scenario_import ''/c/missing.config.ts'' =
     Inl (JError ''Cannot find module /c/missing.config.ts'')"
  by (simp add: importConfig_def scenario_import_def)

lemma upt_2: "[0..<Suc (Suc 0)] = [0, Suc 0]"
  by (simp add: upt_rec)

lemma upt_3: "[0..<Suc (Suc (Suc 0))] = [0, Suc 0, Suc (Suc 0)]"
  by (simp add: upt_rec)

lemma scenario_settle:
  "settle scenario_import getErrorMessage [''/a/good.config.ts'', ''/b/bad.config.ts''] =
     ([\<lparr>path = ''/a/good.config.ts'', config = JObject []\<rparr>],
      [\<lparr>failure_path = ''/b/bad.config.ts'',
        error = ''Config at /b/bad.config.ts must export a default object''\<rparr>])"
  by (simp add: settle_def allSettled_def collect_def scenario_good scenario_bad upt_2
      getErrorMessage_def)

lemma scenario_text:
  \<open>loadJsConfigs scenario_import getErrorMessage [''/a/good.config.ts'', ''/b/bad.config.ts''] =
     Inr ''{"Failures":[{"path":"/b/bad.config.ts","error":"Config at /b/bad.config.ts must export a default object"}]}''\<close>
  by (simp add: loadJsConfigs_def loadJsConfigs_try_def scenario_settle JSONStringify_Failures
      failure_text_def QuoteJSONString_def quote_char_def)

lemma getErrorMessage_nonempty: "getErrorMessage err \<noteq> []"
  by (simp add: getErrorMessage_def split: js_value.splits)

lemma getErrorMessage_keeps_message: "sublist m (getErrorMessage (JError m))"
  by (simp add: getErrorMessage_def)

lemma bigint_loaded:
  "importConfig bigint_import ''/a/oxlint.config.ts'' =
     Inr \<lparr>path = ''/a/oxlint.config.ts'', config = JObject [(''maxWarnings'', JBigInt 10)]\<rparr>"
  by (simp add: importConfig_def bigint_import_def)

lemma bigint_thrown:
  "loadJsConfigs_try bigint_import gem [''/a/oxlint.config.ts''] =
     Inl (JError ''Do not know how to serialize a BigInt'')"
  by (simp add: loadJsConfigs_try_def settle_def allSettled_def collect_def bigint_loaded
      JSONStringify_Success JsConfigResult_object_def)

lemma bigint_result:
  \<open>loadJsConfigs bigint_import getErrorMessage [''/a/oxlint.config.ts''] =
     Inr ''{"Error":"Do not know how to serialize a BigInt"}''\<close>
  by (simp add: loadJsConfigs_def bigint_thrown JSONStringify_Error getErrorMessage_def
      QuoteJSONString_def quote_char_def)

lemma scenario_settle3:
  "settle scenario_import getErrorMessage
       [''/b/bad.config.ts'', ''/a/good.config.ts'', ''/c/missing.config.ts''] =
     ([\<lparr>path = ''/a/good.config.ts'', config = JObject []\<rparr>],
      [\<lparr>failure_path = ''/b/bad.config.ts'',
        error = ''Config at /b/bad.config.ts must export a default object''\<rparr>,
       \<lparr>failure_path = ''/c/missing.config.ts'',
        error = ''Cannot find module /c/missing.config.ts''\<rparr>])"
  by (simp add: settle_def allSettled_def collect_def scenario_good scenario_bad scenario_missing
      upt_3 getErrorMessage_def)

lemma scenario_settle_good:
  "settle scenario_import getErrorMessage [''/a/good.config.ts''] =
     ([\<lparr>path = ''/a/good.config.ts'', config = JObject []\<rparr>], [])"
  by (simp add: settle_def allSettled_def collect_def scenario_good)

section \<open>Claims about \<^verbatim>\<open>loadJsConfigs\<close>\<close>

text \<open>
  C1. When at least one path fails to load or fails validation, \<^verbatim>\<open>loadJsConfigs\<close> returns
  the text of the \<^verbatim>\<open>Failures\<close> shape, written out below: one object with the keys
  \<^verbatim>\<open>path\<close> and \<^verbatim>\<open>error\<close> for each entry of the array \<^verbatim>\<open>errors\<close> of the loop, in order. The
  paths of the entries are exactly the failing paths of the input, each as often and in
  the order it occurs there, so every failing path is listed, not just the first, and no
  path that loaded is. Every message is non-empty, provided \<^verbatim>\<open>getErrorMessage\<close>, which is
  not among the sources, never returns the empty string.
\<close>

theorem loadJsConfigs_reports_every_failure:
  assumes "\<forall>err. gem err \<noteq> []"
    and "\<exists>p\<in>set paths. isl (importConfig imp p)"
  shows \<open>\<exists>errors.
           loadJsConfigs imp gem paths =
             Inr (''{"Failures":['' @
                  join_comma (map (\<lambda>f. ''{"path":'' @ QuoteJSONString (failure_path f) @
                                          '',"error":'' @ QuoteJSONString (error f) @ ''}'') errors) @
                  '']}'') \<and>
           loadJsConfigs imp gem paths = JSONStringify (Failures errors) \<and>
           snd (settle imp gem paths) = errors \<and>
           map failure_path errors = filter (\<lambda>p. isl (importConfig imp p)) paths \<and>
           (\<forall>f\<in>set errors. error f \<noteq> [] \<and> isl (importConfig imp (failure_path f)))\<close>
proof -
  let ?errors = "errors_upto imp gem paths (length paths)"
  have ne: "?errors \<noteq> []"
    using assms(2) by (simp add: errors_upto_nonempty)
  have paths: "map failure_path ?errors = filter (\<lambda>p. isl (importConfig imp p)) paths"
    by (rule errors_upto_paths)
  have msg: "\<forall>f\<in>set ?errors. error f \<noteq> []"
    using assms(1) by (auto simp: errors_upto_def)
  have fails: "\<forall>f\<in>set ?errors. isl (importConfig imp (failure_path f))"
    by (auto simp: errors_upto_def)
  from loadJsConfigs_Failures_text [OF ne] loadJsConfigs_Failures [OF ne] paths msg fails
  show ?thesis
    by (intro exI [of _ ?errors]) (simp add: settle_eq)
qed

text \<open>
  Two failing paths around one that loads: \<^verbatim>\<open>/b/bad.config.ts\<close> exports a string,
  \<^verbatim>\<open>/c/missing.config.ts\<close> cannot be imported, \<^verbatim>\<open>/a/good.config.ts\<close> exports an object.
\<close>

theorem loadJsConfigs_reports_every_failure_witness:
  \<open>loadJsConfigs scenario_import getErrorMessage
       [''/b/bad.config.ts'', ''/a/good.config.ts'', ''/c/missing.config.ts''] =
     Inr ''{"Failures":[{"path":"/b/bad.config.ts","error":"Config at /b/bad.config.ts must export a default object"},{"path":"/c/missing.config.ts","error":"Cannot find module /c/missing.config.ts"}]}'' \<and>
   map failure_path (snd (settle scenario_import getErrorMessage
       [''/b/bad.config.ts'', ''/a/good.config.ts'', ''/c/missing.config.ts''])) =
     [''/b/bad.config.ts'', ''/c/missing.config.ts'']\<close>
proof -
  have nonempty: "\<forall>err. getErrorMessage err \<noteq> []"
    by (simp add: getErrorMessage_nonempty)
  have failing: "\<exists>p\<in>set [''/b/bad.config.ts'', ''/a/good.config.ts'', ''/c/missing.config.ts''].
      isl (importConfig scenario_import p)"
    by (simp add: scenario_bad)
  from loadJsConfigs_reports_every_failure [OF nonempty failing]
  show ?thesis
    by (auto simp: scenario_settle3 QuoteJSONString_def quote_char_def)
qed

text \<open>
  C2, as stated, fails: a config file whose default export is an object holding a BigInt
  loads, and the only path of the call succeeds, yet serializing the \<^verbatim>\<open>Success\<close> object
  throws inside the \<^verbatim>\<open>try\<close> block and the \<^verbatim>\<open>catch\<close> clause returns the \<^verbatim>\<open>Error\<close> shape.
\<close>

theorem loadJsConfigs_Success_counterexample:
  \<open>importConfig bigint_import ''/a/oxlint.config.ts'' =
       Inr \<lparr>path = ''/a/oxlint.config.ts'', config = JObject [(''maxWarnings'', JBigInt 10)]\<rparr> \<and>
   loadJsConfigs bigint_import getErrorMessage [''/a/oxlint.config.ts''] =
       Inr ''{"Error":"Do not know how to serialize a BigInt"}'' \<and>
   \<not> (\<exists>successes. loadJsConfigs bigint_import getErrorMessage [''/a/oxlint.config.ts''] =
          JSONStringify (Success successes))\<close>
proof -
  have "\<not> (\<exists>successes. loadJsConfigs bigint_import getErrorMessage [''/a/oxlint.config.ts''] =
          JSONStringify (Success successes))"
  proof
    assume "\<exists>successes. loadJsConfigs bigint_import getErrorMessage [''/a/oxlint.config.ts''] =
          JSONStringify (Success successes)"
    then obtain successes where
      \<open>JSONStringify (Success successes) = Inr ''{"Error":"Do not know how to serialize a BigInt"}''\<close>
      by (auto simp: bigint_result)
    from JSONStringify_Success_prefix [OF this] show False
      by simp
  qed
  with bigint_loaded bigint_result show ?thesis by simp
qed

text \<open>
  C2, amended. When every one of the \<open>N\<close> paths loads and the \<^verbatim>\<open>Success\<close> object built from
  them can be serialized (\<^verbatim>\<open>JSONStringify\<close> does not throw on it), \<^verbatim>\<open>loadJsConfigs\<close> returns
  the text of the \<^verbatim>\<open>Success\<close> shape, with one entry per path, \<open>N\<close> in all, in the order of
  the input, and no failure is recorded.
\<close>

theorem loadJsConfigs_Success_when_serializable:
  assumes "\<forall>p\<in>set paths. importConfig imp p = Inr \<lparr>path = p, config = cfg p\<rparr>"
    and "JSONStringify (Success (map (\<lambda>p. \<lparr>path = p, config = cfg p\<rparr>) paths)) = Inr out"
  shows "loadJsConfigs imp gem paths = Inr out \<and>
         settle imp gem paths = (map (\<lambda>p. \<lparr>path = p, config = cfg p\<rparr>) paths, []) \<and>
         length (fst (settle imp gem paths)) = length paths \<and>
         map path (fst (settle imp gem paths)) = paths"
  using assms(2) loadJsConfigs_all_loaded [OF assms(1), of gem]
  by (simp add: loadJsConfigs_def comp_def)

theorem loadJsConfigs_Success_when_serializable_witness:
  \<open>loadJsConfigs scenario_import getErrorMessage [''/d/rules.config.ts'', ''/a/good.config.ts''] =
     Inr ''{"Success":[{"path":"/d/rules.config.ts","config":{"rules":{}}},{"path":"/a/good.config.ts","config":{}}]}'' \<and>
   map path (fst (settle scenario_import getErrorMessage [''/d/rules.config.ts'', ''/a/good.config.ts''])) =
     [''/d/rules.config.ts'', ''/a/good.config.ts'']\<close>
proof -
  let ?cfg = "\<lambda>p. if p = ''/a/good.config.ts'' then JObject [] else JObject [(''rules'', JObject [])]"
  have loaded: "\<forall>p\<in>set [''/d/rules.config.ts'', ''/a/good.config.ts''].
      importConfig scenario_import p = Inr \<lparr>path = p, config = ?cfg p\<rparr>"
    by (simp add: scenario_good scenario_rules)
  have serial: \<open>JSONStringify (Success (map (\<lambda>p. \<lparr>path = p, config = ?cfg p\<rparr>)
        [''/d/rules.config.ts'', ''/a/good.config.ts''])) =
      Inr ''{"Success":[{"path":"/d/rules.config.ts","config":{"rules":{}}},{"path":"/a/good.config.ts","config":{}}]}''\<close>
    by (simp add: JSONStringify_Success JsConfigResult_object_def QuoteJSONString_def quote_char_def)
  from loadJsConfigs_Success_when_serializable [OF loaded serial, of getErrorMessage]
  show ?thesis by simp
qed

text \<open>
  C3. A path of the call whose module loads with default export \<^verbatim>\<open>null\<close>, a number or a
  string is recorded in \<^verbatim>\<open>errors\<close>; the call returns the text of the \<^verbatim>\<open>Failures\<close> shape,
  written out below, and that text contains the entry of the path; the entry's message
  contains the path, provided \<^verbatim>\<open>getErrorMessage\<close>, which is not among the sources, returns
  a text that contains the message of the \<^verbatim>\<open>Error\<close> it is given. A path whose default
  export has type \<^verbatim>\<open>object\<close> and is not \<^verbatim>\<open>null\<close>, the empty object included, is recorded
  in \<^verbatim>\<open>successes\<close> with that export as its config and never in \<^verbatim>\<open>errors\<close>; when no path
  of the call fails and every config has a JSON text (\<open>t\<close> below), the call returns the
  text of the \<^verbatim>\<open>Success\<close> shape, written out below, and that text contains the entry of
  the path.
\<close>

theorem loadJsConfigs_validates_default_export:
  assumes "\<forall>m. sublist m (gem (JError m))"
    and "p \<in> set paths"
    and "import_default p = Inr d"
  shows \<open>((d = JNull \<or> (\<exists>n. d = JNumber n) \<or> (\<exists>s. d = JString s)) \<longrightarrow>
            (\<exists>errors f out.
               snd (settle import_default gem paths) = errors \<and>
               f \<in> set errors \<and> failure_path f = p \<and> sublist p (error f) \<and>
               loadJsConfigs import_default gem paths = Inr out \<and>
               out = ''{"Failures":['' @
                     join_comma (map (\<lambda>f. ''{"path":'' @ QuoteJSONString (failure_path f) @
                                             '',"error":'' @ QuoteJSONString (error f) @ ''}'') errors) @
                     '']}'' \<and>
               sublist (''{"path":'' @ QuoteJSONString p @ '',"error":'' @
                        QuoteJSONString (error f) @ ''}'') out)) \<and>
         (typeof d = ''object'' \<and> d \<noteq> JNull \<longrightarrow>
            \<lparr>path = p, config = d\<rparr> \<in> set (fst (settle import_default gem paths)) \<and>
            (\<forall>f\<in>set (snd (settle import_default gem paths)). failure_path f \<noteq> p) \<and>
            (snd (settle import_default gem paths) = [] \<and>
             (\<forall>r\<in>set (fst (settle import_default gem paths)).
                SerializeJSONProperty (config r) = Inr (Some (t r))) \<longrightarrow>
               (\<exists>out.
                  loadJsConfigs import_default gem paths = Inr out \<and>
                  out = ''{"Success":['' @
                        join_comma (map (\<lambda>r. ''{"path":'' @ QuoteJSONString (path r) @
                                                '',"config":'' @ t r @ ''}'')
                                      (fst (settle import_default gem paths))) @
                        '']}'' \<and>
                  sublist (''{"path":'' @ QuoteJSONString p @ '',"config":'' @
                           t \<lparr>path = p, config = d\<rparr> @ ''}'') out)))\<close>
proof (intro conjI impI)
  let ?m = "''Config at '' @ p @ '' must export a default object''"
  let ?errors = "errors_upto import_default gem paths (length paths)"
  let ?entry = \<open>\<lambda>f. ''{"path":'' @ QuoteJSONString (failure_path f) @
                     '',"error":'' @ QuoteJSONString (error f) @ ''}''\<close>
  let ?f = "\<lparr>failure_path = p, error = gem (JError ?m)\<rparr>"
  let ?out = \<open>''{"Failures":['' @ join_comma (map ?entry ?errors) @ '']}''\<close>
  assume "d = JNull \<or> (\<exists>n. d = JNumber n) \<or> (\<exists>s. d = JString s)"
  then have "typeof d \<noteq> ''object'' \<or> d = JNull"
    by auto
  with assms(3) have rejected: "importConfig import_default p = Inl (JError ?m)"
    by (simp add: importConfig_def)
  from rejected_recorded [OF assms(2) rejected]
  have mem: "?f \<in> set ?errors" .
  then have ne: "?errors \<noteq> []" by auto
  have out: "loadJsConfigs import_default gem paths = Inr ?out"
    using ne by (rule loadJsConfigs_Failures_text)
  have "sublist p ?m" by (rule sublist_appendI)
  moreover have "sublist ?m (gem (JError ?m))" using assms(1) by blast
  ultimately have "sublist p (gem (JError ?m))"
    by (rule sublist_order.order_trans)
  then have path_in: "sublist p (error ?f)"
    by simp
  from mem have "?entry ?f \<in> set (map ?entry ?errors)"
    by (simp only: set_map) (rule imageI)
  then have "sublist (?entry ?f) (join_comma (map ?entry ?errors))"
    by (rule sublist_join_comma)
  moreover have "sublist (join_comma (map ?entry ?errors)) ?out"
    by (rule sublist_appendI)
  ultimately have "sublist (?entry ?f) ?out"
    by (rule sublist_order.order_trans)
  then have entry_in: \<open>sublist (''{"path":'' @ QuoteJSONString p @ '',"error":'' @
                        QuoteJSONString (error ?f) @ ''}'') ?out\<close>
    by simp
  have settle: "snd (settle import_default gem paths) = ?errors"
    by (simp add: settle_eq)
  show \<open>\<exists>errors f out.
               snd (settle import_default gem paths) = errors \<and>
               f \<in> set errors \<and> failure_path f = p \<and> sublist p (error f) \<and>
               loadJsConfigs import_default gem paths = Inr out \<and>
               out = ''{"Failures":['' @
                     join_comma (map (\<lambda>f. ''{"path":'' @ QuoteJSONString (failure_path f) @
                                             '',"error":'' @ QuoteJSONString (error f) @ ''}'') errors) @
                     '']}'' \<and>
               sublist (''{"path":'' @ QuoteJSONString p @ '',"error":'' @
                        QuoteJSONString (error f) @ ''}'') out\<close>
    using settle mem path_in out entry_in
    by (intro exI [of _ ?errors] exI [of _ ?f] exI [of _ ?out]) simp
next
  assume "typeof d = ''object'' \<and> d \<noteq> JNull"
  with assms(3) have loaded: "importConfig import_default p = Inr \<lparr>path = p, config = d\<rparr>"
    by (simp add: importConfig_def)
  from fulfilled_recorded [OF assms(2) loaded]
  show "\<lparr>path = p, config = d\<rparr> \<in> set (fst (settle import_default gem paths))"
    by (simp add: settle_eq)
next
  assume "typeof d = ''object'' \<and> d \<noteq> JNull"
  with assms(3) have loaded: "importConfig import_default p = Inr \<lparr>path = p, config = d\<rparr>"
    by (simp add: importConfig_def)
  from loaded_not_in_errors [OF loaded]
  show "\<forall>f\<in>set (snd (settle import_default gem paths)). failure_path f \<noteq> p"
    by (simp add: settle_eq)
next
  let ?successes = "successes_upto import_default paths (length paths)"
  let ?entry = \<open>\<lambda>r. ''{"path":'' @ QuoteJSONString (path r) @ '',"config":'' @ t r @ ''}''\<close>
  let ?r = "\<lparr>path = p, config = d\<rparr>"
  let ?out = \<open>''{"Success":['' @ join_comma (map ?entry ?successes) @ '']}''\<close>
  assume "typeof d = ''object'' \<and> d \<noteq> JNull"
  with assms(3) have loaded: "importConfig import_default p = Inr ?r"
    by (simp add: importConfig_def)
  assume "snd (settle import_default gem paths) = [] \<and>
             (\<forall>r\<in>set (fst (settle import_default gem paths)).
                SerializeJSONProperty (config r) = Inr (Some (t r)))"
  then have none: "errors_upto import_default gem paths (length paths) = []"
    and serial: "\<forall>r\<in>set ?successes. SerializeJSONProperty (config r) = Inr (Some (t r))"
    by (simp_all add: settle_eq)
  have out: "loadJsConfigs import_default gem paths = Inr ?out"
    using none serial by (rule loadJsConfigs_Success_text)
  from fulfilled_recorded [OF assms(2) loaded]
  have "?entry ?r \<in> set (map ?entry ?successes)"
    by (simp only: set_map) (rule imageI)
  then have "sublist (?entry ?r) (join_comma (map ?entry ?successes))"
    by (rule sublist_join_comma)
  moreover have "sublist (join_comma (map ?entry ?successes)) ?out"
    by (rule sublist_appendI)
  ultimately have "sublist (?entry ?r) ?out"
    by (rule sublist_order.order_trans)
  then have entry_in: \<open>sublist (''{"path":'' @ QuoteJSONString p @ '',"config":'' @
                           t \<lparr>path = p, config = d\<rparr> @ ''}'') ?out\<close>
    by simp
  show \<open>\<exists>out.
                  loadJsConfigs import_default gem paths = Inr out \<and>
                  out = ''{"Success":['' @
                        join_comma (map (\<lambda>r. ''{"path":'' @ QuoteJSONString (path r) @
                                                '',"config":'' @ t r @ ''}'')
                                      (fst (settle import_default gem paths))) @
                        '']}'' \<and>
                  sublist (''{"path":'' @ QuoteJSONString p @ '',"config":'' @
                           t \<lparr>path = p, config = d\<rparr> @ ''}'') out\<close>
    using out entry_in
    by (intro exI [of _ ?out]) (simp add: settle_eq)
qed

theorem loadJsConfigs_validates_default_export_witness:
  \<open>loadJsConfigs scenario_import getErrorMessage [''/a/good.config.ts'', ''/b/bad.config.ts''] =
     Inr ''{"Failures":[{"path":"/b/bad.config.ts","error":"Config at /b/bad.config.ts must export a default object"}]}'' \<and>
   (\<exists>f. f \<in> set (snd (settle scenario_import getErrorMessage
                          [''/a/good.config.ts'', ''/b/bad.config.ts''])) \<and>
        failure_path f = ''/b/bad.config.ts'' \<and> sublist ''/b/bad.config.ts'' (error f)) \<and>
   \<lparr>path = ''/a/good.config.ts'', config = JObject []\<rparr>
     \<in> set (fst (settle scenario_import getErrorMessage [''/a/good.config.ts'', ''/b/bad.config.ts''])) \<and>
   loadJsConfigs scenario_import getErrorMessage [''/a/good.config.ts''] =
     Inr ''{"Success":[{"path":"/a/good.config.ts","config":{}}]}''\<close>
proof -
  have keeps: "\<forall>m. sublist m (getErrorMessage (JError m))"
    by (simp add: getErrorMessage_keeps_message)
  have bad: "''/b/bad.config.ts'' \<in> set [''/a/good.config.ts'', ''/b/bad.config.ts'']"
    by simp
  have good: "''/a/good.config.ts'' \<in> set [''/a/good.config.ts'', ''/b/bad.config.ts'']"
    by simp
  have alone: "''/a/good.config.ts'' \<in> set [''/a/good.config.ts'']"
    by simp
  have bad_export: "scenario_import ''/b/bad.config.ts'' = Inr (JString ''rules'')"
    by (simp add: scenario_import_def)
  have good_export: "scenario_import ''/a/good.config.ts'' = Inr (JObject [])"
    by (simp add: scenario_import_def)
  from loadJsConfigs_validates_default_export
      [where import_default = scenario_import and p = "''/b/bad.config.ts''",
       OF keeps bad bad_export]
  have failed: \<open>loadJsConfigs scenario_import getErrorMessage [''/a/good.config.ts'', ''/b/bad.config.ts''] =
       Inr ''{"Failures":[{"path":"/b/bad.config.ts","error":"Config at /b/bad.config.ts must export a default object"}]}'' \<and>
     (\<exists>f. f \<in> set (snd (settle scenario_import getErrorMessage
                          [''/a/good.config.ts'', ''/b/bad.config.ts''])) \<and>
        failure_path f = ''/b/bad.config.ts'' \<and> sublist ''/b/bad.config.ts'' (error f))\<close>
    by (auto simp: scenario_text)
  from loadJsConfigs_validates_default_export
      [where import_default = scenario_import and p = "''/a/good.config.ts''",
       OF keeps good good_export]
  have recorded: "\<lparr>path = ''/a/good.config.ts'', config = JObject []\<rparr>
     \<in> set (fst (settle scenario_import getErrorMessage [''/a/good.config.ts'', ''/b/bad.config.ts'']))"
    by simp
  from loadJsConfigs_validates_default_export
      [where import_default = scenario_import and p = "''/a/good.config.ts''"
         and t = "\<lambda>r. ''{}''",
       OF keeps alone good_export]
  have returned: \<open>loadJsConfigs scenario_import getErrorMessage [''/a/good.config.ts''] =
     Inr ''{"Success":[{"path":"/a/good.config.ts","config":{}}]}''\<close>
    by (simp add: scenario_settle_good QuoteJSONString_def quote_char_def)
  show ?thesis
    by (rule conjI [OF conjunct1 [OF failed] conjI [OF conjunct2 [OF failed] conjI [OF recorded returned]]])
qed

text \<open>
  C4. \<^verbatim>\<open>loadJsConfigs\<close> never throws past its boundary: for every host, every
  \<^verbatim>\<open>getErrorMessage\<close> and every list of paths its promise fulfils with a text, the JSON text
  of an object with exactly one key, which is \<^verbatim>\<open>Success\<close>, \<^verbatim>\<open>Failures\<close> or \<^verbatim>\<open>Error\<close>; the text
  starts accordingly. When the \<^verbatim>\<open>try\<close> block throws, outside the handling of the single
  files, the result is the \<^verbatim>\<open>Error\<close> shape with the message of what was thrown.
\<close>

theorem loadJsConfigs_always_returns_one_shape:
  \<open>\<exists>props out.
     loadJsConfigs imp gem paths = Inr out \<and>
     JSONStringify props = Inr out \<and>
     ((\<exists>successes. props = Success successes \<and> prefix ''{"Success":['' out) \<or>
      (\<exists>errors. props = Failures errors \<and> prefix ''{"Failures":['' out) \<or>
      (\<exists>message. props = Error message \<and> prefix ''{"Error":"'' out)) \<and>
     map fst props \<in> {[''Success''], [''Failures''], [''Error'']} \<and>
     (\<forall>err. loadJsConfigs_try imp gem paths = Inl err \<longrightarrow> props = Error (gem err))\<close>
proof (cases "loadJsConfigs_try imp gem paths")
  case (Inl err)
  obtain out where out: "JSONStringify (Error (gem err)) = Inr out"
    by (simp add: JSONStringify_Error)
  with Inl have "loadJsConfigs imp gem paths = Inr out"
    by (simp add: loadJsConfigs_def)
  with Inl out JSONStringify_Error_prefix [OF out] show ?thesis
    by (intro exI [of _ "Error (gem err)"] exI [of _ out]) (auto simp: Error_def)
next
  case (Inr out)
  then have result: "loadJsConfigs imp gem paths = Inr out"
    by (simp add: loadJsConfigs_def)
  let ?errors = "errors_upto imp gem paths (length paths)"
  let ?successes = "successes_upto imp paths (length paths)"
  show ?thesis
  proof (cases "?errors = []")
    case True
    with Inr have out: "JSONStringify (Success ?successes) = Inr out"
      by (simp add: loadJsConfigs_try_eq)
    with Inr result JSONStringify_Success_prefix [OF out] show ?thesis
      by (intro exI [of _ "Success ?successes"] exI [of _ out]) (auto simp: Success_def)
  next
    case False
    with Inr have out: "JSONStringify (Failures ?errors) = Inr out"
      by (simp add: loadJsConfigs_try_eq)
    with Inr result JSONStringify_Failures_prefix [OF out] show ?thesis
      by (intro exI [of _ "Failures ?errors"] exI [of _ out]) (auto simp: Failures_def)
  qed
qed

theorem loadJsConfigs_always_returns_one_shape_witness:
  \<open>\<exists>props.
     loadJsConfigs_try bigint_import getErrorMessage [''/a/oxlint.config.ts''] =
       Inl (JError ''Do not know how to serialize a BigInt'') \<and>
     loadJsConfigs bigint_import getErrorMessage [''/a/oxlint.config.ts''] =
       Inr ''{"Error":"Do not know how to serialize a BigInt"}'' \<and>
     JSONStringify props = Inr ''{"Error":"Do not know how to serialize a BigInt"}'' \<and>
     props = Error ''Do not know how to serialize a BigInt''\<close>
proof -
  from loadJsConfigs_always_returns_one_shape
    [of bigint_import getErrorMessage "[''/a/oxlint.config.ts'']"]
  obtain props out where
    "loadJsConfigs bigint_import getErrorMessage [''/a/oxlint.config.ts''] = Inr out"
    "JSONStringify props = Inr out"
    "\<forall>err. loadJsConfigs_try bigint_import getErrorMessage [''/a/oxlint.config.ts''] = Inl err \<longrightarrow>
       props = Error (getErrorMessage err)"
    by blast
  then show ?thesis
    by (intro exI [of _ props]) (simp add: bigint_thrown bigint_result getErrorMessage_def)
qed

text \<open>
  C9. With an empty array of paths \<^verbatim>\<open>loadJsConfigs\<close> returns the \<^verbatim>\<open>Success\<close> shape with an
  empty list, the text \<^verbatim>\<open>{"Success":[]}\<close>.
\<close>

theorem loadJsConfigs_empty:
  \<open>loadJsConfigs imp gem [] = Inr ''{"Success":[]}''\<close>
  by (simp add: loadJsConfigs_def loadJsConfigs_try_def settle_def allSettled_def
      JSONStringify_Success)

theorem loadJsConfigs_empty_witness:
  \<open>loadJsConfigs scenario_import getErrorMessage [] = Inr ''{"Success":[]}''\<close>
  by (rule loadJsConfigs_empty)

text \<open>
  C10. The array \<^verbatim>\<open>errors\<close> holds one entry for each index whose promise rejected, by
  increasing index; the entry's path is the input path at that index, whatever the
  rejection carries, and its message is \<^verbatim>\<open>getErrorMessage\<close> of the reason. When some index
  fails, \<^verbatim>\<open>loadJsConfigs\<close> returns the text of the \<^verbatim>\<open>Failures\<close> shape written out below:
  for each failing index, in increasing order, an object whose \<^verbatim>\<open>path\<close> is the input path
  at that index. When no index fails, the returned text is not that of a \<^verbatim>\<open>Failures\<close>
  shape.
\<close>

theorem loadJsConfigs_Failures_in_input_order:
  \<open>let failing = filter (\<lambda>i. isl (importConfig imp (paths ! i))) [0..<length paths];
       errors = map (\<lambda>i. \<lparr>failure_path = paths ! i,
                             error = gem (projl (importConfig imp (paths ! i)))\<rparr>) failing
   in snd (settle imp gem paths) = errors \<and>
      (failing \<noteq> [] \<longrightarrow>
         loadJsConfigs imp gem paths = JSONStringify (Failures errors) \<and>
         loadJsConfigs imp gem paths =
           Inr (''{"Failures":['' @
                join_comma (map (\<lambda>i. ''{"path":'' @ QuoteJSONString (paths ! i) @ '',"error":'' @
                                        QuoteJSONString (gem (projl (importConfig imp (paths ! i)))) @
                                        ''}'') failing) @
                '']}'')) \<and>
      (failing = [] \<longrightarrow>
         (\<forall>es. loadJsConfigs imp gem paths \<noteq> JSONStringify (Failures es)) \<and>
         (\<exists>out. loadJsConfigs imp gem paths = Inr out \<and> \<not> prefix ''{"Failures":'' out))\<close>
proof -
  let ?errors = "errors_upto imp gem paths (length paths)"
  have shape: "?errors \<noteq> [] \<Longrightarrow> loadJsConfigs imp gem paths = JSONStringify (Failures ?errors)"
    by (rule loadJsConfigs_Failures)
  have out: \<open>?errors \<noteq> [] \<Longrightarrow> loadJsConfigs imp gem paths =
     Inr (''{"Failures":['' @
          join_comma (map (\<lambda>f. ''{"path":'' @ QuoteJSONString (failure_path f) @ '',"error":'' @
                                  QuoteJSONString (error f) @ ''}'') ?errors) @ '']}'')\<close>
    by (rule loadJsConfigs_Failures_text)
  have settle: "snd (settle imp gem paths) = ?errors"
    by (simp add: settle_eq)
  have none: "?errors = [] \<Longrightarrow> \<forall>es. loadJsConfigs imp gem paths \<noteq> JSONStringify (Failures es)"
    by (simp add: not_Failures_when_none_fails)
  have other: \<open>?errors = [] \<Longrightarrow> \<exists>out. loadJsConfigs imp gem paths = Inr out \<and> \<not> prefix ''{"Failures":'' out\<close>
  proof -
    assume empty: "?errors = []"
    show ?thesis
    proof (cases "loadJsConfigs_try imp gem paths")
      case (Inl err)
      then have "loadJsConfigs imp gem paths = JSONStringify (Error (gem err))"
        by (simp add: loadJsConfigs_def)
      then show ?thesis
        by (simp add: JSONStringify_Error)
    next
      case (Inr out)
      with empty have "JSONStringify (Success (successes_upto imp paths (length paths))) = Inr out"
        by (simp add: loadJsConfigs_try_eq)
      then have \<open>prefix ''{"Success":['' out\<close>
        by (rule JSONStringify_Success_prefix)
      then have \<open>\<not> prefix ''{"Failures":'' out\<close>
        by (auto simp: prefix_def)
      moreover from Inr have "loadJsConfigs imp gem paths = Inr out"
        by (simp add: loadJsConfigs_def)
      ultimately show ?thesis by simp
    qed
  qed
  from shape out settle none other show ?thesis
    unfolding Let_def errors_upto_def by (auto simp: comp_def)
qed

theorem loadJsConfigs_Failures_in_input_order_witness:
  \<open>loadJsConfigs scenario_import getErrorMessage
       [''/c/missing.config.ts'', ''/a/good.config.ts'', ''/b/bad.config.ts''] =
     Inr ''{"Failures":[{"path":"/c/missing.config.ts","error":"Cannot find module /c/missing.config.ts"},{"path":"/b/bad.config.ts","error":"Config at /b/bad.config.ts must export a default object"}]}'' \<and>
   snd (settle scenario_import getErrorMessage
          [''/c/missing.config.ts'', ''/a/good.config.ts'', ''/b/bad.config.ts'']) =
     [\<lparr>failure_path = ''/c/missing.config.ts'', error = ''Cannot find module /c/missing.config.ts''\<rparr>,
      \<lparr>failure_path = ''/b/bad.config.ts'',
        error = ''Config at /b/bad.config.ts must export a default object''\<rparr>]\<close>
proof -
  from loadJsConfigs_Failures_in_input_order
    [of scenario_import "[''/c/missing.config.ts'', ''/a/good.config.ts'', ''/b/bad.config.ts'']"
        getErrorMessage]
  show ?thesis
    by (simp add: Let_def upt_3 scenario_missing scenario_good scenario_bad getErrorMessage_def
        JSONStringify_Failures failure_text_def QuoteJSONString_def quote_char_def)
qed

section \<open>Properties of the bridge of \<^verbatim>\<open>cli.ts\<close>\<close>

lemma wired_initial: "wired pm wm (initial ps ws)"
  by (simp add: wired_def initial_def)

lemma wired_loadPluginWrapper:
  "wired pm wm st \<Longrightarrow> wired pm wm (snd (loadPluginWrapper p n a st))"
  by (auto simp: wired_def loadPluginWrapper_def debugAssertIsNonNull_def split: prod.splits)

lemma wired_setupRuleConfigsWrapper:
  "wired pm wm st \<Longrightarrow> wired pm wm (snd (setupRuleConfigsWrapper j st))"
  by (auto simp: wired_def setupRuleConfigsWrapper_def debugAssertIsNonNull_def split: prod.splits)

lemma wired_lintFileWrapper:
  "wired pm wm st \<Longrightarrow> wired pm wm (snd (lintFileWrapper f b buf rs os sj gj st))"
  by (auto simp: wired_def lintFileWrapper_def debugAssertIsNonNull_def split: prod.splits)

lemma wired_createWorkspaceWrapper:
  "wired pm wm st \<Longrightarrow> wired pm wm (snd (createWorkspaceWrapper w st))"
  by (auto simp: wired_def createWorkspaceWrapper_def debugAssertIsNonNull_def)

lemma wired_destroyWorkspaceWrapper:
  "wired pm wm st \<Longrightarrow> wired pm wm (snd (destroyWorkspaceWrapper w st))"
  by (auto simp: wired_def destroyWorkspaceWrapper_def debugAssertIsNonNull_def)

lemma wired_resolve:
  "wired pm wm st \<Longrightarrow> wired pm wm (resolve pm wm k st)"
  by (auto simp: wired_def resolve_def loadPlugin_then_def createWorkspace_then_def Let_def
      split: job.splits prod.splits)

lemma step_snd:
  "step pm wm c st = Inr st' \<Longrightarrow>
     (case c of
        LoadPlugin p n a \<Rightarrow> st' = snd (loadPluginWrapper p n a st)
      | SetupRuleConfigs j \<Rightarrow> st' = snd (setupRuleConfigsWrapper j st)
      | LintFile f b buf rs os sj gj \<Rightarrow> st' = snd (lintFileWrapper f b buf rs os sj gj st)
      | CreateWorkspace w \<Rightarrow> st' = snd (createWorkspaceWrapper w st)
      | DestroyWorkspace w \<Rightarrow> st' = snd (destroyWorkspaceWrapper w st)
      | ImportResolved k \<Rightarrow> st' = resolve pm wm k st)"
  by (cases c) (auto split: prod.splits sum.splits)

lemma wired_step:
  assumes "wired pm wm st" and "step pm wm c st = Inr st'"
  shows "wired pm wm st'"
  using step_snd [OF assms(2)] assms(1)
  by (cases c)
     (simp_all add: wired_loadPluginWrapper wired_setupRuleConfigsWrapper wired_lintFileWrapper
        wired_createWorkspaceWrapper wired_destroyWorkspaceWrapper wired_resolve)

lemma wired_run:
  "wired pm wm st \<Longrightarrow> run pm wm cs st = Inr st' \<Longrightarrow> wired pm wm st'"
proof (induction cs arbitrary: st)
  case Nil
  then show ?case by simp
next
  case (Cons c cs)
  then show ?case
    by (cases "step pm wm c st") (auto dest: wired_step)
qed

lemma run_append:
  "run pm wm (xs @ ys) st =
     (case run pm wm xs st of Inl e \<Rightarrow> Inl e | Inr st' \<Rightarrow> run pm wm ys st')"
  by (induction xs arbitrary: st) (simp_all split: sum.splits)















lemma logging_run_loaded:
  "run logging_plugins logging_workspace
       [LoadPlugin ''/p/plugin.js'' None False, ImportResolved 0] (initial [] []) =
     Inr plugins_loaded"
  by (simp add: initial_def loadPluginWrapper_def resolve_def loadPlugin_then_def
      logging_plugins_def plugins_loaded_def)



text \<open>
  Two calls of \<^verbatim>\<open>loadPluginWrapper\<close> with no resolution between them both find the
  variable unset: each starts an import and leaves its own callback.
\<close>

lemma overlapping_first_calls:
  "run pm wm [LoadPlugin p1 n1 a1, LoadPlugin p2 n2 a2] (initial ps ws) =
     Inr ((initial ps ws)\<lparr>imported := [''./plugins/index.ts'', ''./plugins/index.ts''],
                           pending := [PluginsThen p1 n1 a1, PluginsThen p2 n2 a2]\<rparr>)"
  by (simp add: initial_def loadPluginWrapper_def)

lemma destroyWorkspaceWrapper_unset:
  "destroyWorkspace st = None \<Longrightarrow> destroyWorkspaceWrapper w st = (Inl AssertionError, st)"
  by (simp add: destroyWorkspaceWrapper_def debugAssertIsNonNull_def)

lemma destroyWorkspaceWrapper_bound:
  "destroyWorkspace st = Some f \<Longrightarrow>
     destroyWorkspaceWrapper w st = (Inr (), st\<lparr>workspaces := f w (workspaces st)\<rparr>)"
  by (simp add: destroyWorkspaceWrapper_def debugAssertIsNonNull_def)

lemma setupRuleConfigsWrapper_unset:
  "setupRuleConfigs st = None \<Longrightarrow> setupRuleConfigsWrapper j st = (Inl AssertionError, st)"
  by (simp add: setupRuleConfigsWrapper_def debugAssertIsNonNull_def)

lemma setupRuleConfigsWrapper_bound:
  "setupRuleConfigs st = Some f \<Longrightarrow>
     setupRuleConfigsWrapper j st =
       (Inr (fst (f j (plugins st))), st\<lparr>plugins := snd (f j (plugins st))\<rparr>)"
  by (simp add: setupRuleConfigsWrapper_def debugAssertIsNonNull_def split: prod.splits)

lemma lintFileWrapper_unset:
  "lintFile st = None \<Longrightarrow> lintFileWrapper f b buf rs os sj gj st = (Inl AssertionError, st)"
  by (simp add: lintFileWrapper_def debugAssertIsNonNull_def)

lemma lintFileWrapper_bound:
  "lintFile st = Some g \<Longrightarrow>
     lintFileWrapper f b buf rs os sj gj st =
       (Inr (fst (g f b buf rs os sj gj (plugins st))),
        st\<lparr>plugins := snd (g f b buf rs os sj gj (plugins st))\<rparr>)"
  by (simp add: lintFileWrapper_def debugAssertIsNonNull_def split: prod.splits)

lemma run_then_throw:
  assumes "run pm wm calls st0 = Inr st" and "step pm wm c st = Inl e"
  shows "run pm wm (calls @ c # rest) st0 = Inl e"
  using assms by (simp add: run_append)

text \<open>
  C6. In every state reached by a sequence of bridge calls: while no
  \<^verbatim>\<open>createWorkspace\<close> call has loaded the workspace subsystem, \<^verbatim>\<open>destroyWorkspaceWrapper\<close>
  throws the assertion failure, and a sequence that makes the call ends with that
  failure whatever follows; while no \<^verbatim>\<open>loadPlugin\<close> call has loaded the plugin subsystem,
  the same holds of \<^verbatim>\<open>setupRuleConfigsWrapper\<close> and \<^verbatim>\<open>lintFileWrapper\<close>. Once the subsystem
  is loaded the assertion does not fire, and the call returns what the function exported
  by the module returns.
\<close>

theorem precondition_violations_assert:
  assumes "run pm wm calls (initial ps ws) = Inr st"
  shows
    "(createWorkspace st = None \<longrightarrow>
        destroyWorkspaceWrapper w st = (Inl AssertionError, st) \<and>
        (\<forall>rest. run pm wm (calls @ DestroyWorkspace w # rest) (initial ps ws) = Inl AssertionError)) \<and>
     (loadPlugin st = None \<longrightarrow>
        setupRuleConfigsWrapper j st = (Inl AssertionError, st) \<and>
        lintFileWrapper f b buf rs os sj gj st = (Inl AssertionError, st) \<and>
        (\<forall>rest. run pm wm (calls @ SetupRuleConfigs j # rest) (initial ps ws) = Inl AssertionError) \<and>
        (\<forall>rest. run pm wm (calls @ LintFile f b buf rs os sj gj # rest) (initial ps ws) =
                  Inl AssertionError)) \<and>
     (createWorkspace st \<noteq> None \<longrightarrow>
        destroyWorkspaceWrapper w st =
          (Inr (), st\<lparr>workspaces := mod_destroyWorkspace wm w (workspaces st)\<rparr>)) \<and>
     (loadPlugin st \<noteq> None \<longrightarrow>
        setupRuleConfigsWrapper j st =
          (Inr (fst (mod_setupRuleConfigs pm j (plugins st))),
           st\<lparr>plugins := snd (mod_setupRuleConfigs pm j (plugins st))\<rparr>) \<and>
        lintFileWrapper f b buf rs os sj gj st =
          (Inr (fst (mod_lintFile pm f b buf rs os sj gj (plugins st))),
           st\<lparr>plugins := snd (mod_lintFile pm f b buf rs os sj gj (plugins st))\<rparr>))"
proof -
  have wired: "wired pm wm st"
    using wired_initial assms by (rule wired_run)
  have no_workspace: "createWorkspace st = None \<longrightarrow>
        destroyWorkspaceWrapper w st = (Inl AssertionError, st) \<and>
        (\<forall>rest. run pm wm (calls @ DestroyWorkspace w # rest) (initial ps ws) = Inl AssertionError)"
  proof
    assume "createWorkspace st = None"
    with wired have "destroyWorkspace st = None"
      by (auto simp: wired_def)
    then have thrown: "destroyWorkspaceWrapper w st = (Inl AssertionError, st)"
      by (rule destroyWorkspaceWrapper_unset)
    then have "step pm wm (DestroyWorkspace w) st = Inl AssertionError"
      by simp
    with assms have "\<forall>rest. run pm wm (calls @ DestroyWorkspace w # rest) (initial ps ws) = Inl AssertionError"
      by (simp add: run_then_throw)
    with thrown show "destroyWorkspaceWrapper w st = (Inl AssertionError, st) \<and>
        (\<forall>rest. run pm wm (calls @ DestroyWorkspace w # rest) (initial ps ws) = Inl AssertionError)"
      by simp
  qed
  have no_plugins: "loadPlugin st = None \<longrightarrow>
        setupRuleConfigsWrapper j st = (Inl AssertionError, st) \<and>
        lintFileWrapper f b buf rs os sj gj st = (Inl AssertionError, st) \<and>
        (\<forall>rest. run pm wm (calls @ SetupRuleConfigs j # rest) (initial ps ws) = Inl AssertionError) \<and>
        (\<forall>rest. run pm wm (calls @ LintFile f b buf rs os sj gj # rest) (initial ps ws) =
                  Inl AssertionError)"
  proof
    assume "loadPlugin st = None"
    with wired have unset: "setupRuleConfigs st = None" "lintFile st = None"
      by (auto simp: wired_def)
    have setup_thrown: "setupRuleConfigsWrapper j st = (Inl AssertionError, st)"
      using unset(1) by (rule setupRuleConfigsWrapper_unset)
    have lint_thrown: "lintFileWrapper f b buf rs os sj gj st = (Inl AssertionError, st)"
      using unset(2) by (rule lintFileWrapper_unset)
    from setup_thrown have "step pm wm (SetupRuleConfigs j) st = Inl AssertionError"
      by simp
    with assms have setup_fatal:
      "\<forall>rest. run pm wm (calls @ SetupRuleConfigs j # rest) (initial ps ws) = Inl AssertionError"
      by (simp add: run_then_throw)
    from lint_thrown have "step pm wm (LintFile f b buf rs os sj gj) st = Inl AssertionError"
      by simp
    with assms have lint_fatal:
      "\<forall>rest. run pm wm (calls @ LintFile f b buf rs os sj gj # rest) (initial ps ws) = Inl AssertionError"
      by (simp add: run_then_throw)
    from setup_thrown lint_thrown setup_fatal lint_fatal
    show "setupRuleConfigsWrapper j st = (Inl AssertionError, st) \<and>
        lintFileWrapper f b buf rs os sj gj st = (Inl AssertionError, st) \<and>
        (\<forall>rest. run pm wm (calls @ SetupRuleConfigs j # rest) (initial ps ws) = Inl AssertionError) \<and>
        (\<forall>rest. run pm wm (calls @ LintFile f b buf rs os sj gj # rest) (initial ps ws) =
                  Inl AssertionError)"
      by (intro conjI)
  qed
  have with_workspace: "createWorkspace st \<noteq> None \<longrightarrow>
        destroyWorkspaceWrapper w st =
          (Inr (), st\<lparr>workspaces := mod_destroyWorkspace wm w (workspaces st)\<rparr>)"
  proof
    assume "createWorkspace st \<noteq> None"
    with wired have "destroyWorkspace st = Some (mod_destroyWorkspace wm)"
      by (auto simp: wired_def)
    then show "destroyWorkspaceWrapper w st =
          (Inr (), st\<lparr>workspaces := mod_destroyWorkspace wm w (workspaces st)\<rparr>)"
      by (rule destroyWorkspaceWrapper_bound)
  qed
  have with_plugins: "loadPlugin st \<noteq> None \<longrightarrow>
        setupRuleConfigsWrapper j st =
          (Inr (fst (mod_setupRuleConfigs pm j (plugins st))),
           st\<lparr>plugins := snd (mod_setupRuleConfigs pm j (plugins st))\<rparr>) \<and>
        lintFileWrapper f b buf rs os sj gj st =
          (Inr (fst (mod_lintFile pm f b buf rs os sj gj (plugins st))),
           st\<lparr>plugins := snd (mod_lintFile pm f b buf rs os sj gj (plugins st))\<rparr>)"
  proof
    assume "loadPlugin st \<noteq> None"
    with wired have bound: "setupRuleConfigs st = Some (mod_setupRuleConfigs pm)"
        "lintFile st = Some (mod_lintFile pm)"
      by (auto simp: wired_def)
    show "setupRuleConfigsWrapper j st =
          (Inr (fst (mod_setupRuleConfigs pm j (plugins st))),
           st\<lparr>plugins := snd (mod_setupRuleConfigs pm j (plugins st))\<rparr>) \<and>
        lintFileWrapper f b buf rs os sj gj st =
          (Inr (fst (mod_lintFile pm f b buf rs os sj gj (plugins st))),
           st\<lparr>plugins := snd (mod_lintFile pm f b buf rs os sj gj (plugins st))\<rparr>)"
      using setupRuleConfigsWrapper_bound [OF bound(1)] lintFileWrapper_bound [OF bound(2)]
      by simp
  qed
  from no_workspace no_plugins with_workspace with_plugins show ?thesis
    by (intro conjI)
qed

theorem precondition_violations_assert_witness:
  "destroyWorkspaceWrapper ''file:///w'' (initial ([] :: string list) ([] :: string list)) = (Inl AssertionError, initial [] []) \<and>
   run logging_plugins logging_workspace [DestroyWorkspace ''file:///w'', CreateWorkspace ''file:///w'']
       (initial ([] :: string list) ([] :: string list)) = Inl AssertionError \<and>
   lintFileWrapper ''/src/a.js'' 0 None [1] [0] ''{}'' ''{}'' (initial ([] :: string list) ([] :: string list)) =
     (Inl AssertionError, initial [] []) \<and>
   setupRuleConfigsWrapper ''[]'' plugins_loaded =
     (Inr None, plugins_loaded\<lparr>plugins := [''loadPlugin /p/plugin.js'', ''setupRuleConfigs []'']\<rparr>) \<and>
   destroyWorkspaceWrapper ''file:///w'' plugins_loaded = (Inl AssertionError, plugins_loaded)"
proof -
  have start: "run logging_plugins logging_workspace [] (initial [] []) = Inr (initial [] [])"
    by simp
  have unset: "createWorkspace (initial ([] :: string list) ([] :: string list)) = None"
      "loadPlugin (initial ([] :: string list) ([] :: string list)) = None"
      "createWorkspace plugins_loaded = None"
    and set: "loadPlugin plugins_loaded \<noteq> None"
    by (simp_all add: initial_def plugins_loaded_def)
  note first = precondition_violations_assert [OF start,
      of "''file:///w''" "''[]''" "''/src/a.js''" 0 None "[1]" "[0]" "''{}''" "''{}''"]
  note later = precondition_violations_assert [OF logging_run_loaded,
      of "''file:///w''" "''[]''" "''/src/a.js''" 0 None "[1]" "[0]" "''{}''" "''{}''"]
  from first unset have a: "destroyWorkspaceWrapper ''file:///w'' (initial [] []) =
      (Inl AssertionError, initial ([] :: string list) ([] :: string list))"
    by blast
  from first unset have "\<forall>rest. run logging_plugins logging_workspace
      ([] @ DestroyWorkspace ''file:///w'' # rest) (initial [] []) = Inl AssertionError"
    by blast
  then have b: "run logging_plugins logging_workspace
      [DestroyWorkspace ''file:///w'', CreateWorkspace ''file:///w''] (initial [] []) = Inl AssertionError"
    by (metis append_Nil)
  from first unset have c: "lintFileWrapper ''/src/a.js'' 0 None [1] [0] ''{}'' ''{}'' (initial [] []) =
     (Inl AssertionError, initial ([] :: string list) ([] :: string list))"
    by blast
  from later set have "setupRuleConfigsWrapper ''[]'' plugins_loaded =
     (Inr (fst (mod_setupRuleConfigs logging_plugins ''[]'' (plugins plugins_loaded))),
      plugins_loaded\<lparr>plugins := snd (mod_setupRuleConfigs logging_plugins ''[]'' (plugins plugins_loaded))\<rparr>)"
    by blast
  then have d: "setupRuleConfigsWrapper ''[]'' plugins_loaded =
     (Inr None, plugins_loaded\<lparr>plugins := [''loadPlugin /p/plugin.js'', ''setupRuleConfigs []'']\<rparr>)"
    by (simp add: logging_plugins_def plugins_loaded_def)
  from later unset have e: "destroyWorkspaceWrapper ''file:///w'' plugins_loaded =
      (Inl AssertionError, plugins_loaded)"
    by blast
  from a b c d e show ?thesis
    by (intro conjI)
qed


lemma plugins_lintFile_content:
  "plugins_lintFile run_rules f b (Some content) rs os sj gj ps =
     (run_rules f content rs os sj gj, ps\<lparr>buffers := (buffers ps)(b \<mapsto> content)\<rparr>)"
  by (simp add: plugins_lintFile_def)

lemma plugins_lintFile_cached:
  "buffers ps b = Some content \<Longrightarrow>
     plugins_lintFile run_rules f b None rs os sj gj ps = (run_rules f content rs os sj gj, ps)"
  by (simp add: plugins_lintFile_def)

lemma plugins_lintFile_missing:
  "buffers ps b = None \<Longrightarrow>
     plugins_lintFile run_rules f b None rs os sj gj ps =
       (Some (lint_failure ''No buffer is cached for this buffer id''), ps)"
  by (simp add: plugins_lintFile_def)

lemma plugins_lintFile_other:
  "b' \<noteq> b \<Longrightarrow> buffers (snd (plugins_lintFile run_rules f b' buf rs os sj gj ps)) b = buffers ps b"
  by (simp add: plugins_lintFile_def split: option.splits)

text \<open>
  C7. With \<^verbatim>\<open>lintFile\<close> bound to the modelled function of the plugin subsystem: after a
  call of \<^verbatim>\<open>lintFileWrapper\<close> that supplies content for a buffer id, a call with the same
  id and no buffer gets the result of running the rules on that same content, and leaves
  the state as it was; a call with no buffer for an id that has no cached content
  returns an error description as its result and throws nothing; a call for another id
  leaves the cached content of this id alone.
\<close>

theorem lintFile_reuses_cached_buffer:
  assumes "lintFile st = Some (plugins_lintFile run_rules)"
  shows
    "(\<exists>st1.
        lintFileWrapper f1 b (Some content) rs1 os1 sj1 gj1 st =
          (Inr (run_rules f1 content rs1 os1 sj1 gj1), st1) \<and>
        buffers (plugins st1) b = Some content \<and>
        lintFileWrapper f2 b None rs2 os2 sj2 gj2 st1 =
          (Inr (run_rules f2 content rs2 os2 sj2 gj2), st1)) \<and>
     (buffers (plugins st) b = None \<longrightarrow>
        lintFileWrapper f2 b None rs2 os2 sj2 gj2 st =
          (Inr (Some (lint_failure ''No buffer is cached for this buffer id'')), st)) \<and>
     (\<forall>b' buf. b' \<noteq> b \<longrightarrow>
        buffers (plugins (snd (lintFileWrapper f1 b' buf rs1 os1 sj1 gj1 st))) b =
          buffers (plugins st) b)"
proof -
  let ?ps1 = "(plugins st)\<lparr>buffers := (buffers (plugins st))(b \<mapsto> content)\<rparr>"
  let ?st1 = "st\<lparr>plugins := ?ps1\<rparr>"
  have first: "lintFileWrapper f1 b (Some content) rs1 os1 sj1 gj1 st =
      (Inr (run_rules f1 content rs1 os1 sj1 gj1), ?st1)"
    using lintFileWrapper_bound [OF assms] by (simp add: plugins_lintFile_content)
  have bound1: "lintFile ?st1 = Some (plugins_lintFile run_rules)"
    using assms by simp
  have cached: "buffers (plugins ?st1) b = Some content"
    by simp
  have second: "lintFileWrapper f2 b None rs2 os2 sj2 gj2 ?st1 =
      (Inr (run_rules f2 content rs2 os2 sj2 gj2), ?st1)"
    using lintFileWrapper_bound [OF bound1] plugins_lintFile_cached [OF cached]
    by simp
  have reuse: "\<exists>st1.
        lintFileWrapper f1 b (Some content) rs1 os1 sj1 gj1 st =
          (Inr (run_rules f1 content rs1 os1 sj1 gj1), st1) \<and>
        buffers (plugins st1) b = Some content \<and>
        lintFileWrapper f2 b None rs2 os2 sj2 gj2 st1 =
          (Inr (run_rules f2 content rs2 os2 sj2 gj2), st1)"
    using first cached second by (intro exI [of _ ?st1] conjI)
  have missing: "buffers (plugins st) b = None \<longrightarrow>
        lintFileWrapper f2 b None rs2 os2 sj2 gj2 st =
          (Inr (Some (lint_failure ''No buffer is cached for this buffer id'')), st)"
    using lintFileWrapper_bound [OF assms] by (simp add: plugins_lintFile_missing)
  have other: "\<forall>b' buf. b' \<noteq> b \<longrightarrow>
        buffers (plugins (snd (lintFileWrapper f1 b' buf rs1 os1 sj1 gj1 st))) b =
          buffers (plugins st) b"
    using lintFileWrapper_bound [OF assms] by (simp add: plugins_lintFile_other)
  from reuse missing other show ?thesis
    by (intro conjI)
qed

theorem lintFile_reuses_cached_buffer_witness:
  "fst (lintFileWrapper ''/src/a.js'' 7 (Some [1, 2, 3]) [1] [0] ''{}'' ''{}'' lint_ready) =
     Inr (Some ''3'') \<and>
   fst (lintFileWrapper ''/src/a.js'' 7 None [1] [0] ''{}'' ''{}''
          (snd (lintFileWrapper ''/src/a.js'' 7 (Some [1, 2, 3]) [1] [0] ''{}'' ''{}'' lint_ready))) =
     Inr (Some ''3'') \<and>
   lintFileWrapper ''/src/b.js'' 8 None [1] [0] ''{}'' ''{}'' lint_ready =
     (Inr (Some (lint_failure ''No buffer is cached for this buffer id'')), lint_ready)"
proof -
  have bound: "lintFile lint_ready = Some (plugins_lintFile byte_count_rules)"
    and empty: "buffers (plugins lint_ready) 8 = None"
    by (simp_all add: lint_ready_def initial_def)
  from lintFile_reuses_cached_buffer [OF bound,
      of "''/src/a.js''" 7 "[1, 2, 3]" "[1]" "[0]" "''{}''" "''{}''"
         "''/src/a.js''" "[1]" "[0]" "''{}''" "''{}''"]
  obtain st1 where
    "lintFileWrapper ''/src/a.js'' 7 (Some [1, 2, 3]) [1] [0] ''{}'' ''{}'' lint_ready =
       (Inr (byte_count_rules ''/src/a.js'' [1, 2, 3] [1] [0] ''{}'' ''{}''), st1)"
    "lintFileWrapper ''/src/a.js'' 7 None [1] [0] ''{}'' ''{}'' st1 =
       (Inr (byte_count_rules ''/src/a.js'' [1, 2, 3] [1] [0] ''{}'' ''{}''), st1)"
    by blast
  then have reuse: "fst (lintFileWrapper ''/src/a.js'' 7 (Some [1, 2, 3]) [1] [0] ''{}'' ''{}'' lint_ready) =
       Inr (Some ''3'') \<and>
     fst (lintFileWrapper ''/src/a.js'' 7 None [1] [0] ''{}'' ''{}''
          (snd (lintFileWrapper ''/src/a.js'' 7 (Some [1, 2, 3]) [1] [0] ''{}'' ''{}'' lint_ready))) =
       Inr (Some ''3'')"
    by (simp add: byte_count_rules_def)
  from lintFile_reuses_cached_buffer [OF bound,
      of "''/src/b.js''" 8 "[]" "[1]" "[0]" "''{}''" "''{}''"
         "''/src/b.js''" "[1]" "[0]" "''{}''" "''{}''"] empty
  have missing: "lintFileWrapper ''/src/b.js'' 8 None [1] [0] ''{}'' ''{}'' lint_ready =
     (Inr (Some (lint_failure ''No buffer is cached for this buffer id'')), lint_ready)"
    by blast
  from reuse missing show ?thesis
    by blast
qed

text \<open>
  C8. The entry point sets \<^verbatim>\<open>process.exitCode\<close> to 1, which is not zero, when \<^verbatim>\<open>lint\<close>
  reports failure, and leaves the process as it was, exit code included, when \<^verbatim>\<open>lint\<close>
  reports success.
\<close>

theorem main_exit_code:
  "(\<not> lint (drop 2 (argv proc)) loadPluginWrapper setupRuleConfigsWrapper lintFileWrapper
          createWorkspaceWrapper destroyWorkspaceWrapper \<longrightarrow>
      main lint proc = proc\<lparr>exitCode := Some 1\<rparr> \<and> exitCode (main lint proc) \<noteq> Some 0) \<and>
   (lint (drop 2 (argv proc)) loadPluginWrapper setupRuleConfigsWrapper lintFileWrapper
        createWorkspaceWrapper destroyWorkspaceWrapper \<longrightarrow>
      main lint proc = proc)"
  by (simp add: main_def)

theorem main_exit_code_witness:
  "main (lint_reports False) \<lparr>argv = [''node'', ''cli.js'', ''src''], exitCode = None\<rparr> =
     \<lparr>argv = [''node'', ''cli.js'', ''src''], exitCode = Some 1\<rparr> \<and>
   main (lint_reports True) \<lparr>argv = [''node'', ''cli.js'', ''src''], exitCode = None\<rparr> =
     \<lparr>argv = [''node'', ''cli.js'', ''src''], exitCode = None\<rparr>"
  using main_exit_code [of "lint_reports False" "\<lparr>argv = [''node'', ''cli.js'', ''src''], exitCode = None\<rparr>"]
    main_exit_code [of "lint_reports True" "\<lparr>argv = [''node'', ''cli.js'', ''src''], exitCode = None\<rparr>"]
  by (simp add: lint_reports_def)

end
